theory Spec2Isabelle
  imports Complex_Main "HOL-Library.AList" "HOL-Library.Char_ord" "HOL-Library.List_Lexorder"
    "HOL-Library.Sublist"
begin

section \<open>Python values, dictionaries and exceptions\<close>

text \<open>
  The values that reach \<^verbatim>\<open>utils/log.py\<close>: integers (an epoch), floats (a metric; the
  module does no arithmetic on them, so a float is represented by the number it denotes),
  strings and nested dictionaries (the configuration). A dictionary keeps its keys in
  insertion order, and storing under a key that is already present replaces the value in
  place: this is \<open>AList.update\<close> on an association list.
\<close>

datatype pyval = PyInt int | PyFloat real | PyStr string | PyDict "(string \<times> pyval) list"

type_synonym pydict = "(string \<times> pyval) list"

text \<open>The dictionary display \<^verbatim>\<open>{k1: v1, k2: v2}\<close>: the items are stored from left to right.\<close>

definition dict_of :: "(string \<times> pyval) list \<Rightarrow> pydict" where
  "dict_of items = foldl (\<lambda>d kv. AList.update (fst kv) (snd kv) d) [] items"

text \<open>
  The exceptions the module can end with. \<open>SystemExit\<close> is what the builtin
  \<^verbatim>\<open>exit()\<close> raises to end the process; \<open>PyException\<close> stands for whatever the
  evaluation of a caller-supplied expression raises.
\<close>

datatype error =
    KeyError string
  | TypeError
  | ValueError
  | AttributeError string
  | FileExistsError
  | FileNotFoundError
  | NotADirectoryError
  | IsADirectoryError
  | OSError
  | SystemExit
  | PyException string

section \<open>Path strings (posixpath)\<close>

text \<open>
  \<^verbatim>\<open>posixpath.join(a, *p)\<close>: a component that starts with a slash replaces what was
  joined so far; otherwise it is appended, after a slash unless the path is empty or
  already ends with one.
\<close>

definition join2 :: "string \<Rightarrow> string \<Rightarrow> string" where
  "join2 path b =
     (if b \<noteq> [] \<and> hd b = CHR ''/'' then b
      else if path = [] \<or> last path = CHR ''/'' then path @ b
      else path @ ''/'' @ b)"

definition os_path_join :: "string \<Rightarrow> string list \<Rightarrow> string" where
  "os_path_join a p = foldl join2 a p"

text \<open>
  \<^verbatim>\<open>posixpath.dirname(p)\<close>: everything up to the last slash; trailing slashes of that
  head are stripped unless the head consists of slashes only.
\<close>

definition rstrip_sep :: "string \<Rightarrow> string" where
  "rstrip_sep s = rev (dropWhile (\<lambda>c. c = CHR ''/'') (rev s))"

definition os_path_dirname :: "string \<Rightarrow> string" where
  "os_path_dirname p =
     (let head = rev (dropWhile (\<lambda>c. c \<noteq> CHR ''/'') (rev p))
      in if head \<noteq> [] \<and> list_ex (\<lambda>c. c \<noteq> CHR ''/'') head then rstrip_sep head else head)"

text \<open>
  The names a path string consists of, as the operating system reads them: the string is
  cut at every slash and empty names (a leading, doubled or trailing slash) are dropped.
  The names \<^verbatim>\<open>.\<close> and \<^verbatim>\<open>..\<close> are not interpreted, and a slash at the end of a path
  is dropped although the operating system then insists on a directory. The paths the
  module lists (\<^verbatim>\<open>log_model_dir\<close>) never end in a slash; the statements about removing
  and making directories are restricted to paths that do not end in a slash and have no
  \<^verbatim>\<open>.\<close> or \<^verbatim>\<open>..\<close>.
\<close>

fun split_sep :: "string \<Rightarrow> string \<Rightarrow> string list" where
  "split_sep acc [] = (if acc = [] then [] else [acc])"
| "split_sep acc (c # cs) =
     (if c = CHR ''/'' then (if acc = [] then [] else [acc]) @ split_sep [] cs
      else split_sep (acc @ [c]) cs)"

definition components :: "string \<Rightarrow> string list" where
  "components path = split_sep [] path"

section \<open>The file system\<close>

text \<open>
  A file system is a tree: a regular file, a symbolic link, or a directory with its
  entries in directory order. A link carries the node it points to, \<open>None\<close> when it
  dangles. Paths are resolved from the root of the tree.
\<close>

datatype node = File | Link "node option" | Dir "(string \<times> node) list"

text \<open>Following symbolic links to what they finally name.\<close>

fun follow :: "node \<Rightarrow> node option" where
  "follow File = Some File"
| "follow (Dir es) = Some (Dir es)"
| "follow (Link None) = None"
| "follow (Link (Some n)) = follow n"

text \<open>\<^verbatim>\<open>os.scandir\<close>: the entries of a directory (or of a link to one).\<close>

definition scandir :: "node \<Rightarrow> (string \<times> node) list option" where
  "scandir n = (case follow n of Some (Dir es) \<Rightarrow> Some es | _ \<Rightarrow> None)"

text \<open>
  \<open>lstat\<close> resolves a path without following a link in its last name; \<open>stat\<close>
  follows it. Links in the names before the last are always followed.
\<close>

fun lstat :: "node \<Rightarrow> string list \<Rightarrow> node option" where
  "lstat n [] = Some n"
| "lstat n (c # cs) =
     (case scandir n of
        None \<Rightarrow> None
      | Some es \<Rightarrow> (case map_of es c of None \<Rightarrow> None | Some m \<Rightarrow> lstat m cs))"

definition stat :: "node \<Rightarrow> string list \<Rightarrow> node option" where
  "stat n p = (case lstat n p of None \<Rightarrow> None | Some m \<Rightarrow> follow m)"

text \<open>Replacing the entries of a directory that is reached through links.\<close>

fun set_entries :: "(string \<times> node) list \<Rightarrow> node \<Rightarrow> node" where
  "set_entries es (Dir old) = Dir es"
| "set_entries es (Link (Some n)) = Link (Some (set_entries es n))"
| "set_entries es (Link None) = Link None"
| "set_entries es File = File"

text \<open>
  \<open>alter p v n\<close> changes what the path \<open>p\<close> names in \<open>n\<close>: the entry is removed
  (\<open>v = None\<close>) or set to a node. The tree is unchanged when the directory that should
  hold the entry cannot be reached.
\<close>

fun alter :: "string list \<Rightarrow> node option \<Rightarrow> node \<Rightarrow> node" where
  "alter [] v n = n"
| "alter [c] v n =
     (case scandir n of
        None \<Rightarrow> n
      | Some es \<Rightarrow>
          set_entries (case v of None \<Rightarrow> AList.delete c es | Some m \<Rightarrow> AList.update c m es) n)"
| "alter (c # d # cs) v n =
     (case scandir n of
        None \<Rightarrow> n
      | Some es \<Rightarrow>
          (case map_of es c of
             None \<Rightarrow> n
           | Some m \<Rightarrow> set_entries (AList.update c (alter (d # cs) v m) es) n))"

text \<open>The path predicates of \<^verbatim>\<open>os.path\<close>. The empty string names nothing.\<close>

definition os_path_exists :: "node \<Rightarrow> string \<Rightarrow> bool" where
  "os_path_exists fs path = (path \<noteq> [] \<and> stat fs (components path) \<noteq> None)"

definition os_path_isfile :: "node \<Rightarrow> string \<Rightarrow> bool" where
  "os_path_isfile fs path = (path \<noteq> [] \<and> stat fs (components path) = Some File)"

definition os_path_islink :: "node \<Rightarrow> string \<Rightarrow> bool" where
  "os_path_islink fs path =
     (path \<noteq> [] \<and> (case lstat fs (components path) of Some (Link t) \<Rightarrow> True | _ \<Rightarrow> False))"

text \<open>
  \<^verbatim>\<open>os.unlink\<close> removes a file or a link, never a directory. \<^verbatim>\<open>shutil.rmtree\<close>
  removes a directory with everything in it and refuses a link or a file; asked to remove
  the root it empties it and then fails. Permissions are not modelled.
\<close>

definition os_unlink :: "string \<Rightarrow> node \<Rightarrow> (error + unit) \<times> node" where
  "os_unlink path fs =
     (if path = [] then (Inl FileNotFoundError, fs)
      else case lstat fs (components path) of
             None \<Rightarrow> (Inl FileNotFoundError, fs)
           | Some (Dir es) \<Rightarrow> (Inl IsADirectoryError, fs)
           | Some m \<Rightarrow> (Inr (), alter (components path) None fs))"

definition shutil_rmtree :: "string \<Rightarrow> node \<Rightarrow> (error + unit) \<times> node" where
  "shutil_rmtree path fs =
     (if path = [] then (Inl FileNotFoundError, fs)
      else case lstat fs (components path) of
             None \<Rightarrow> (Inl FileNotFoundError, fs)
           | Some File \<Rightarrow> (Inl NotADirectoryError, fs)
           | Some (Link t) \<Rightarrow> (Inl OSError, fs)
           | Some (Dir es) \<Rightarrow>
               (if components path = [] then (Inl OSError, Dir [])
                else (Inr (), alter (components path) None fs)))"

text \<open>
  \<^verbatim>\<open>os.mkdir\<close>: the parent must resolve to a directory and the path itself must name
  nothing yet, not even a dangling link.
\<close>

definition mkdir :: "string list \<Rightarrow> node \<Rightarrow> (error + unit) \<times> node" where
  "mkdir p fs =
     (if p = [] then (Inl FileExistsError, fs)
      else case stat fs (butlast p) of
             None \<Rightarrow> (Inl FileNotFoundError, fs)
           | Some File \<Rightarrow> (Inl NotADirectoryError, fs)
           | Some (Link t) \<Rightarrow> (Inl FileNotFoundError, fs)
           | Some (Dir es) \<Rightarrow>
               (case lstat fs p of
                  Some m \<Rightarrow> (Inl FileExistsError, fs)
                | None \<Rightarrow> (Inr (), alter p (Some (Dir [])) fs)))"

text \<open>
  \<^verbatim>\<open>os.makedirs(name)\<close> with \<^verbatim>\<open>exist_ok=False\<close>: when the parent does not exist it
  is made first, by the same function, and a \<^verbatim>\<open>FileExistsError\<close> of that recursive call
  is swallowed; then the directory itself is made with \<^verbatim>\<open>os.mkdir\<close>.
\<close>

function makedirs :: "string list \<Rightarrow> node \<Rightarrow> (error + unit) \<times> node" where
  "makedirs p fs =
     (if p \<noteq> [] \<and> butlast p \<noteq> [] \<and> stat fs (butlast p) = None
      then (case makedirs (butlast p) fs of
              (Inr u, fs') \<Rightarrow> mkdir p fs'
            | (Inl FileExistsError, fs') \<Rightarrow> mkdir p fs'
            | (Inl e, fs') \<Rightarrow> (Inl e, fs'))
      else mkdir p fs)"
  by pat_completeness auto
termination
  by (relation "measure (\<lambda>(p, fs). length p)") auto

declare makedirs.simps [simp del]

definition os_mkdir :: "string \<Rightarrow> node \<Rightarrow> (error + unit) \<times> node" where
  "os_mkdir path fs = (if path = [] then (Inl FileNotFoundError, fs) else mkdir (components path) fs)"

definition os_makedirs :: "string \<Rightarrow> node \<Rightarrow> (error + unit) \<times> node" where
  "os_makedirs path fs =
     (if path = [] then (Inl FileNotFoundError, fs) else makedirs (components path) fs)"

text \<open>
  The first triple \<^verbatim>\<open>os.walk(top)\<close> yields: the names of the entries that are
  directories (links to directories included) and the names of all other entries. When
  \<^verbatim>\<open>top\<close> cannot be scanned the generator yields nothing, which is \<open>None\<close> here:
  \<^verbatim>\<open>os.walk\<close> swallows the error of \<^verbatim>\<open>os.scandir\<close>, be it a missing path, a path that
  is no directory, or a directory the process may not read. The directories that may not
  be read are given by the paths they are listed by (\<open>locked\<close>); other permissions are
  not modelled.
\<close>

definition is_dir :: "node \<Rightarrow> bool" where
  "is_dir n = (case follow n of Some (Dir es) \<Rightarrow> True | _ \<Rightarrow> False)"

definition os_walk_first ::
  "node \<Rightarrow> string list list \<Rightarrow> string \<Rightarrow> (string \<times> string list \<times> string list) option" where
  "os_walk_first fs locked topdir =
     (if topdir = [] \<or> List.member locked (components topdir) then None
      else case stat fs (components topdir) of
             Some (Dir es) \<Rightarrow>
               Some (topdir, map fst (filter (\<lambda>e. is_dir (snd e)) es),
                          map fst (filter (\<lambda>e. \<not> is_dir (snd e)) es))
           | _ \<Rightarrow> None)"

section \<open>The remote service and the world the module acts on\<close>

text \<open>
  A local artifact object (\<^verbatim>\<open>wandb.Artifact\<close>) with the paths added to it, a version
  of an artifact as the server lists it, and the run handle \<^verbatim>\<open>wandb.init\<close> returns.
\<close>

record artifact =
  art_name :: string
  art_type :: string
  art_files :: "string list"

record version =
  v_type :: string
  v_name :: string
  v_index :: nat
  v_aliases :: "string list"

record wandb_run =
  entity :: string
  project :: string

text \<open>
  The requests sent to the service, in the order they are sent. \<open>UseArtifact\<close> is sent by
  no line of the module; the expression \<^verbatim>\<open>load_model\<close> evaluates may send it.
\<close>

datatype call =
    Init string pydict
  | Log pydict
  | LogArtifact artifact "string list"
  | ArtifactVersions string string
  | Delete version
  | UseArtifact string
  | Download version string

text \<open>
  The world: the local file system, the directories the process may not read, what was
  printed, the requests sent so far and the artifact versions the server holds. Only the
  listing of a directory looks at the second component; deleting and creating are those of
  a process with the permissions they need.
\<close>

record world =
  disk :: node
  unreadable :: "string list list"
  stdout :: "string list"
  calls :: "call list"
  versions :: "version list"

text \<open>What the expression evaluated in \<^verbatim>\<open>load_model\<close> can return.\<close>

datatype pyobj = ArtifactObj version | OtherObj string

text \<open>The object of class \<^verbatim>\<open>WandbLogger\<close>: its attributes \<^verbatim>\<open>project_name\<close> and \<^verbatim>\<open>_run\<close>.\<close>

record logger =
  project_name :: string
  run :: wandb_run

record datetime =
  year :: nat
  month :: nat
  day :: nat
  hour :: nat
  minute :: nat
  second :: nat

text \<open>
  What the module takes from its surroundings and does not compute itself:
  \<^verbatim>\<open>os.path.realpath(__file__)\<close>, \<^verbatim>\<open>datetime.now()\<close>, the entity of the account
  \<^verbatim>\<open>wandb.init\<close> logs in with, the server's reaction to an uploaded artifact, the files
  a download writes, and Python's \<^verbatim>\<open>eval\<close> of an expression in the scope of
  \<^verbatim>\<open>load_model\<close>, which may do anything to the world before it returns or raises.
  Requests to the service are taken to arrive: a transport failure is not modelled.
\<close>

record env =
  module_file :: string
  clock :: datetime
  account :: string
  store :: "artifact \<Rightarrow> string list \<Rightarrow> version list \<Rightarrow> version list"
  fetch :: "version \<Rightarrow> string \<Rightarrow> node \<Rightarrow> node"
  py_eval :: "string \<Rightarrow> logger \<Rightarrow> world \<Rightarrow> (error + pyobj) \<times> world"

definition wandb_init :: "env \<Rightarrow> string \<Rightarrow> pydict \<Rightarrow> world \<Rightarrow> wandb_run \<times> world" where
  "wandb_init e proj config w =
     (\<lparr>entity = account e, project = proj\<rparr>, w\<lparr>calls := calls w @ [Init proj config]\<rparr>)"

definition run_log :: "pydict \<Rightarrow> world \<Rightarrow> world" where
  "run_log rec w = w\<lparr>calls := calls w @ [Log rec]\<rparr>"

text \<open>
  \<^verbatim>\<open>Artifact.add_file(local_path)\<close> raises \<^verbatim>\<open>ValueError\<close> when the path is not a regular
  file (\<^verbatim>\<open>os.path.isfile\<close>); otherwise the path is added.
\<close>

definition add_file :: "node \<Rightarrow> string \<Rightarrow> artifact \<Rightarrow> error + artifact" where
  "add_file fs path a =
     (if os_path_isfile fs path then Inr (a\<lparr>art_files := art_files a @ [path]\<rparr>)
      else Inl ValueError)"

definition log_artifact :: "env \<Rightarrow> artifact \<Rightarrow> string list \<Rightarrow> world \<Rightarrow> world" where
  "log_artifact e a aliases w =
     w\<lparr>calls := calls w @ [LogArtifact a aliases], versions := store e a aliases (versions w)\<rparr>"

definition artifact_versions :: "string \<Rightarrow> string \<Rightarrow> world \<Rightarrow> version list \<times> world" where
  "artifact_versions type_name name w =
     (filter (\<lambda>v. v_type v = type_name \<and> v_name v = name) (versions w),
      w\<lparr>calls := calls w @ [ArtifactVersions type_name name]\<rparr>)"

definition version_delete :: "version \<Rightarrow> world \<Rightarrow> world" where
  "version_delete v w = w\<lparr>calls := calls w @ [Delete v], versions := removeAll v (versions w)\<rparr>"

definition artifact_download :: "env \<Rightarrow> version \<Rightarrow> string \<Rightarrow> world \<Rightarrow> world" where
  "artifact_download e a rootdir w =
     w\<lparr>calls := calls w @ [Download a rootdir], disk := fetch e a rootdir (disk w)\<rparr>"

section \<open>The module \<^verbatim>\<open>utils/log.py\<close>\<close>

text \<open>
  \<^verbatim>\<open>get_file_names_in_directory\<close>: the file names of the first triple of
  \<^verbatim>\<open>os.walk\<close>; when there is none, \<^verbatim>\<open>next\<close> raises \<^verbatim>\<open>StopIteration\<close>, the handler
  prints a line (\<^verbatim>\<open>print\<close> puts a space between its two arguments) and calls
  \<^verbatim>\<open>exit()\<close>.
\<close>

definition get_file_names_in_directory :: "string \<Rightarrow> world \<Rightarrow> (error + string list) \<times> world" where
  "get_file_names_in_directory directory w =
     (case os_walk_first (disk w) (unreadable w) directory of
        Some (dirpath, dirnames, file_names) \<Rightarrow> (Inr file_names, w)
      | None \<Rightarrow>
          (Inl SystemExit,
           w\<lparr>stdout := stdout w @ [''Cannot read files from directory: '' @ '' '' @ directory]\<rparr>))"

text \<open>
  \<^verbatim>\<open>get_formatted_date_time\<close>: \<^verbatim>\<open>strftime("%d-%m-%Y-%H-%M-%S")\<close>. Day, month, hour,
  minute and second are written with two digits; the year is written in decimal, which
  is what \<^verbatim>\<open>%Y\<close> gives for the four-digit years a clock returns.
\<close>

fun str_nat :: "nat \<Rightarrow> string" where
  "str_nat n =
     (if n < 10 then [''0123456789'' ! n] else str_nat (n div 10) @ [''0123456789'' ! (n mod 10)])"

definition pad2 :: "nat \<Rightarrow> string" where
  "pad2 n = (if n < 10 then CHR ''0'' # str_nat n else str_nat n)"

definition get_formatted_date_time :: "env \<Rightarrow> string" where
  "get_formatted_date_time e =
     (let now = clock e;
          dt_string = pad2 (day now) @ ''-'' @ pad2 (month now) @ ''-'' @ str_nat (year now) @ ''-'' @
                      pad2 (hour now) @ ''-'' @ pad2 (minute now) @ ''-'' @ pad2 (second now)
      in dt_string)"

definition get_log_dir :: "env \<Rightarrow> string \<Rightarrow> string" where
  "get_log_dir e log_name = os_path_join (os_path_dirname (module_file e)) [''log'', log_name]"

definition remove_file_dir :: "string \<Rightarrow> node \<Rightarrow> (error + bool) \<times> node" where
  "remove_file_dir path fs =
     (if \<not> os_path_exists fs path then (Inr False, fs)
      else if os_path_isfile fs path \<or> os_path_islink fs path then
        (case os_unlink path fs of
           (Inl err, fs') \<Rightarrow> (Inl err, fs')
         | (Inr u, fs') \<Rightarrow> (Inr True, fs'))
      else
        (case shutil_rmtree path fs of
           (Inl err, fs') \<Rightarrow> (Inl err, fs')
         | (Inr u, fs') \<Rightarrow> (Inr True, fs')))"

text \<open>The properties \<^verbatim>\<open>log_dir\<close>, \<^verbatim>\<open>log_dataset_dir\<close> and \<^verbatim>\<open>log_model_dir\<close>.\<close>

definition log_dir :: "env \<Rightarrow> logger \<Rightarrow> string" where
  "log_dir e self = get_log_dir e (project_name self)"

definition log_dataset_dir :: "env \<Rightarrow> logger \<Rightarrow> string" where
  "log_dataset_dir e self = log_dir e self @ ''/dataset''"

definition log_model_dir :: "env \<Rightarrow> logger \<Rightarrow> string" where
  "log_model_dir e self = log_dir e self @ ''/model''"

text \<open>
  \<^verbatim>\<open>_initialize_log_dir\<close>: three removals whose results are dropped, then three
  \<^verbatim>\<open>os.makedirs\<close>; the first exception raised ends it.
\<close>

definition seq :: "(error + 'a) \<times> node \<Rightarrow> (node \<Rightarrow> (error + 'b) \<times> node) \<Rightarrow> (error + 'b) \<times> node" where
  "seq r f = (case r of (Inl err, fs') \<Rightarrow> (Inl err, fs') | (Inr x, fs') \<Rightarrow> f fs')"

definition initialize_log_dir :: "env \<Rightarrow> logger \<Rightarrow> node \<Rightarrow> (error + unit) \<times> node" where
  "initialize_log_dir e self fs0 =
     seq (remove_file_dir (log_dataset_dir e self) fs0) (\<lambda>fs1.
     seq (remove_file_dir (log_model_dir e self) fs1) (\<lambda>fs2.
     seq (remove_file_dir (log_dir e self) fs2) (\<lambda>fs3.
     seq (os_makedirs (log_dir e self) fs3) (\<lambda>fs4.
     seq (os_makedirs (log_model_dir e self) fs4) (\<lambda>fs5.
     os_makedirs (log_dataset_dir e self) fs5)))))"

text \<open>
  \<^verbatim>\<open>WandbLogger.__init__\<close>. \<^verbatim>\<open>config["logger_name"]\<close> raises \<^verbatim>\<open>KeyError\<close> when the
  key is missing. A name that is not a string makes \<^verbatim>\<open>os.path.join\<close> raise
  \<^verbatim>\<open>TypeError\<close> at the first use of \<^verbatim>\<open>log_dataset_dir\<close>, before the file system is
  touched. The run is opened only after the directories were made; until then the object
  has no \<^verbatim>\<open>_run\<close> attribute, and the directory properties read only \<^verbatim>\<open>project_name\<close>, so
  the run passed to \<^verbatim>\<open>_initialize_log_dir\<close> below is a placeholder. The files the client
  library keeps for itself are not part of the world.
\<close>

definition init :: "env \<Rightarrow> pydict \<Rightarrow> world \<Rightarrow> (error + logger) \<times> world" where
  "init e config w =
     (case map_of config ''logger_name'' of
        None \<Rightarrow> (Inl (KeyError ''logger_name''), w)
      | Some (PyStr name) \<Rightarrow>
          (case initialize_log_dir e \<lparr>project_name = name, run = \<lparr>entity = [], project = []\<rparr>\<rparr> (disk w) of
             (Inl err, fs') \<Rightarrow> (Inl err, w\<lparr>disk := fs'\<rparr>)
           | (Inr u, fs') \<Rightarrow>
               (case wandb_init e name config (w\<lparr>disk := fs'\<rparr>) of
                  (r, w') \<Rightarrow> (Inr \<lparr>project_name = name, run = r\<rparr>, w')))
      | Some other \<Rightarrow> (Inl TypeError, w))"

definition log_info :: "logger \<Rightarrow> pyval \<Rightarrow> string \<Rightarrow> pyval \<Rightarrow> world \<Rightarrow> world" where
  "log_info self epoch key val w = run_log (dict_of [(''Iteration'', epoch), (key, val)]) w"

text \<open>\<^verbatim>\<open>delete_useless_model\<close>: the loop over the listed versions, then the method.\<close>

fun delete_loop :: "version list \<Rightarrow> world \<Rightarrow> world" where
  "delete_loop [] w = w"
| "delete_loop (v # vs) w =
     delete_loop vs (if length (v_aliases v) = 0 then version_delete v w else w)"

definition delete_useless_model :: "logger \<Rightarrow> world \<Rightarrow> world" where
  "delete_useless_model self w =
     (let artifact_type = ''model'';
          artifact_name = entity (run self) @ ''/'' @ project (run self) @ ''/model''
      in case artifact_versions artifact_type artifact_name w of
           (vs, w') \<Rightarrow> delete_loop vs w')"

text \<open>
  \<^verbatim>\<open>log_model\<close>: the loop that adds the files, then the method. An exception of
  \<^verbatim>\<open>add_file\<close> ends the method before anything is uploaded.
\<close>

fun add_files :: "node \<Rightarrow> string \<Rightarrow> string list \<Rightarrow> artifact \<Rightarrow> error + artifact" where
  "add_files fs dir [] a = Inr a"
| "add_files fs dir (file # files) a =
     (case add_file fs (os_path_join dir [file]) a of
        Inl err \<Rightarrow> Inl err
      | Inr a' \<Rightarrow> add_files fs dir files a')"

definition log_model :: "env \<Rightarrow> logger \<Rightarrow> bool \<Rightarrow> world \<Rightarrow> (error + unit) \<times> world" where
  "log_model e self finished w =
     (let model_artifact = \<lparr>art_name = ''model'', art_type = ''model'', art_files = []\<rparr>
      in case get_file_names_in_directory (log_model_dir e self) w of
           (Inl err, w1) \<Rightarrow> (Inl err, w1)
         | (Inr file_names, w1) \<Rightarrow>
             (case add_files (disk w1) (log_model_dir e self) file_names model_artifact of
                Inl err \<Rightarrow> (Inl err, w1)
              | Inr model_artifact' \<Rightarrow>
                  (let aliases = (if finished
                                  then [''latest'', ''finished-'' @ get_formatted_date_time e]
                                  else [''latest'']);
                       w2 = log_artifact e model_artifact' aliases w1
                   in if finished then (Inr (), delete_useless_model self w2) else (Inr (), w2))))"

text \<open>
  \<^verbatim>\<open>load_model\<close>. The expression is \<^verbatim>\<open>"self._"\<close> followed by the argument without its
  first eleven characters. An object without a \<^verbatim>\<open>download\<close> attribute raises
  \<^verbatim>\<open>AttributeError\<close>. The sorted file names are printed one per line.
\<close>

definition load_model :: "env \<Rightarrow> logger \<Rightarrow> string \<Rightarrow> world \<Rightarrow> (error + string) \<times> world" where
  "load_model e self model_api w =
     (let model_api' = ''self._'' @ drop 11 model_api
      in case py_eval e model_api' self w of
           (Inl err, w1) \<Rightarrow> (Inl err, w1)
         | (Inr (OtherObj d), w1) \<Rightarrow> (Inl (AttributeError ''download''), w1)
         | (Inr (ArtifactObj a), w1) \<Rightarrow>
             (let w2 = artifact_download e a (log_model_dir e self) w1
              in case get_file_names_in_directory (log_model_dir e self) w2 of
                   (Inl err, w3) \<Rightarrow> (Inl err, w3)
                 | (Inr file_names, w3) \<Rightarrow>
                     (Inr (log_model_dir e self), w3\<lparr>stdout := stdout w3 @ sort file_names\<rparr>)))"

text \<open>
  A caller of the module: \<^verbatim>\<open>try: body  except exc: handler\<close>. The handler runs in the
  world the body left when it raised \<open>exc\<close>; any other exception passes through.
\<close>

definition try_except ::
  "(world \<Rightarrow> (error + 'a) \<times> world) \<Rightarrow> error \<Rightarrow> (world \<Rightarrow> (error + 'a) \<times> world) \<Rightarrow>
   world \<Rightarrow> (error + 'a) \<times> world" where
  "try_except body exc handler w =
     (case body w of
        (Inl err, w') \<Rightarrow> if err = exc then handler w' else (Inl err, w')
      | (Inr x, w') \<Rightarrow> (Inr x, w'))"

section \<open>Notions the properties are stated with\<close>

text \<open>
  The artifact collection \<^verbatim>\<open>delete_useless_model\<close> lists, and the versions it is after:
  those of that collection that carry no alias.
\<close>

definition model_collection :: "logger \<Rightarrow> string" where
  "model_collection self = entity (run self) @ ''/'' @ project (run self) @ ''/model''"

definition useless :: "logger \<Rightarrow> version \<Rightarrow> bool" where
  "useless self v = (v_type v = ''model'' \<and> v_name v = model_collection self \<and> v_aliases v = [])"

text \<open>
  For the reset of the log directory. The shape of a node is the node without the entries
  of its directories. A path is in order when it names nothing or names a directory
  (possibly through links); a path can be created when every path leading to its parent,
  the root included, is in order. \<open>cleared\<close> is what \<^verbatim>\<open>remove_file_dir\<close> leaves of the
  file system.
\<close>

fun shape :: "node \<Rightarrow> node" where
  "shape File = File"
| "shape (Dir es) = Dir []"
| "shape (Link None) = Link None"
| "shape (Link (Some n)) = Link (Some (shape n))"

definition ok_at :: "node \<Rightarrow> string list \<Rightarrow> bool" where
  "ok_at fs q = (case lstat fs q of None \<Rightarrow> True | Some m \<Rightarrow> is_dir m)"

definition creatable :: "node \<Rightarrow> string list \<Rightarrow> bool" where
  "creatable fs p = list_all (ok_at fs) (prefixes (butlast p))"

definition cleared :: "string list \<Rightarrow> node \<Rightarrow> node" where
  "cleared p fs = (if stat fs p = None then fs else alter p None fs)"

text \<open>
  Path strings the file system model reads as the operating system does: for listing,
  those that have neither of the names \<^verbatim>\<open>.\<close> and \<^verbatim>\<open>..\<close>; for removing and
  making, those that moreover do not end in a slash.
\<close>

definition names_only :: "string \<Rightarrow> bool" where
  "names_only path =
     (\<not> List.member (components path) ''.'' \<and> \<not> List.member (components path) ''..'')"

definition plain :: "string \<Rightarrow> bool" where
  "plain path =
     (path \<noteq> [] \<and> last path \<noteq> CHR ''/''
      \<and> \<not> List.member (components path) ''.'' \<and> \<not> List.member (components path) ''..'')"

text \<open>
  The requests a call has sent: those in the world it left that were not in the world it
  started in. And the aliases of the uploads among some requests.
\<close>

definition sent_by :: "world \<Rightarrow> world \<Rightarrow> call list" where
  "sent_by w w' = drop (length (calls w)) (calls w')"

fun upload_aliases :: "call list \<Rightarrow> string list list" where
  "upload_aliases [] = []"
| "upload_aliases (LogArtifact a aliases # cs) = aliases # upload_aliases cs"
| "upload_aliases (c # cs) = upload_aliases cs"

text \<open>The file names \<^verbatim>\<open>add_file\<close> accepts in a directory: those that name a regular file.\<close>

definition all_files :: "node \<Rightarrow> string \<Rightarrow> string list \<Rightarrow> bool" where
  "all_files fs dir fns = list_all (\<lambda>f. os_path_isfile fs (os_path_join dir [f])) fns"

text \<open>
  The directory the log directories hang under: \<^verbatim>\<open>dirname(realpath(__file__))\<close>,
  without the slash it ends with when the module lies in the root directory.
\<close>

definition base :: "env \<Rightarrow> string" where
  "base e = (let d = os_path_dirname (module_file e) in if last d = CHR ''/'' then butlast d else d)"

text \<open>The artifact \<^verbatim>\<open>log_model\<close> has built when it uploads: named and typed \<^verbatim>\<open>model\<close>,
  holding one path per listed file name.\<close>

definition model_artifact_of :: "string \<Rightarrow> string list \<Rightarrow> artifact" where
  "model_artifact_of dir fns =
     \<lparr>art_name = ''model'', art_type = ''model'', art_files = map (\<lambda>f. os_path_join dir [f]) fns\<rparr>"

text \<open>
  The clocks a calendar can show, with a year of four digits. On these
  \<^verbatim>\<open>strftime("%d-%m-%Y-%H-%M-%S")\<close> gives nineteen characters.
\<close>

definition calendar :: "datetime \<Rightarrow> bool" where
  "calendar t =
     (1000 \<le> year t \<and> year t \<le> 9999 \<and> 1 \<le> month t \<and> month t \<le> 12 \<and> 1 \<le> day t \<and> day t \<le> 31
      \<and> hour t \<le> 23 \<and> minute t \<le> 59 \<and> second t \<le> 59)"

section \<open>A concrete environment\<close>

text \<open>
  An installation under \<^verbatim>\<open>/repo/utils\<close>, a clock that shows 5 May 2021, 22:14:31, and a
  server that gives an uploaded artifact a new version with the aliases asked for and
  takes these aliases from the older versions. A download makes the directory it is given
  and writes \<^verbatim>\<open>model.pt\<close> into it. The evaluation of expressions knows the attribute
  \<^verbatim>\<open>_run\<close>; the call \<^verbatim>\<open>self._run.use_artifact('model:latest')\<close>, which asks the server and
  returns the artifact; and that call followed by \<^verbatim>\<open>.download()\<close>, which downloads the
  artifact into the client's default directory (the working directory is the root) and
  returns the path of that directory, a string. The logger has no attribute \<^verbatim>\<open>_best\<close>.
  No other expression is interpreted: it is answered with an exception that carries it.
\<close>

definition example_env :: env where
  "example_env =
     \<lparr>module_file = ''/repo/utils/log.py'',
      clock = \<lparr>year = 2021, month = 5, day = 5, hour = 22, minute = 14, second = 31\<rparr>,
      account = ''me'',
      store = (\<lambda>a aliases vs.
                 \<lparr>v_type = art_type a, v_name = ''me/test_exp/'' @ art_name a,
                  v_index = length vs, v_aliases = aliases\<rparr> #
                 map (\<lambda>v. v\<lparr>v_aliases := filter (\<lambda>x. \<not> List.member aliases x) (v_aliases v)\<rparr>) vs),
      fetch = (\<lambda>v rootdir n.
                 alter (components rootdir @ [''model.pt'']) (Some File)
                   (snd (makedirs (components rootdir) n))),
      py_eval = (\<lambda>s self w.
                   if s = ''self._run'' then (Inr (OtherObj ''Run''), w)
                   else if s = ''self._run.use_artifact('model:latest')''
                   then (Inr (ArtifactObj \<lparr>v_type = ''model'', v_name = ''me/test_exp/model'',
                                           v_index = 0, v_aliases = [''latest'']\<rparr>),
                         w\<lparr>calls := calls w @ [UseArtifact ''model:latest'']\<rparr>)
                   else if s = ''self._run.use_artifact('model:latest').download()''
                   then (Inr (OtherObj ''str''),
                         w\<lparr>calls := calls w @
                              [UseArtifact ''model:latest'',
                               Download \<lparr>v_type = ''model'', v_name = ''me/test_exp/model'',
                                         v_index = 0, v_aliases = [''latest'']\<rparr>
                                 ''/artifacts/model:v0''],
                           disk := alter [''artifacts'', ''model:v0'', ''model.pt''] (Some File)
                                     (snd (makedirs [''artifacts'', ''model:v0''] (disk w)))\<rparr>)
                   else if s = ''self._best'' then (Inl (AttributeError ''_best''), w)
                   else (Inl (PyException s), w))\<rparr>"

definition example_logger :: logger where
  "example_logger = \<lparr>project_name = ''test_exp'', run = \<lparr>entity = ''me'', project = ''test_exp''\<rparr>\<rparr>"

text \<open>A disk that holds the module and, beside it, the given entries; a world on a disk.\<close>

definition repo_with :: "(string \<times> node) list \<Rightarrow> node" where
  "repo_with es = Dir [(''repo'', Dir [(''utils'', Dir ((''log.py'', File) # es))])]"

definition world_with :: "node \<Rightarrow> version list \<Rightarrow> world" where
  "world_with n vs = \<lparr>disk = n, unreadable = [], stdout = [], calls = [], versions = vs\<rparr>"

text \<open>
  Four disks: one whose model directory holds a file and a subdirectory, one whose model
  directory holds a file and a dangling symbolic link, one where a dangling symbolic link
  stands at the log path, and (\<open>repo_with []\<close>) one without any log directory. A world
  whose model directory may not be read. And a version the server may hold already.
\<close>

definition stale_disk :: node where
  "stale_disk = repo_with [(''log'', Dir [(''test_exp'',
      Dir [(''model'', Dir [(''model.pt'', File), (''best.pt'', Link None)]), (''dataset'', Dir [])])])]"

definition locked_world :: world where
  "locked_world =
     \<lparr>disk = repo_with [(''log'', Dir [(''test_exp'',
               Dir [(''model'', Dir [(''model.pt'', File)]), (''dataset'', Dir [])])])],
      unreadable = [[''repo'', ''utils'', ''log'', ''test_exp'', ''model'']],
      stdout = [], calls = [], versions = []\<rparr>"

definition model_disk :: node where
  "model_disk = repo_with [(''log'', Dir [(''test_exp'',
      Dir [(''model'', Dir [(''model.pt'', File), (''ckpt'', Dir [])]), (''dataset'', Dir [])])])]"

definition dangling_disk :: node where
  "dangling_disk = repo_with [(''log'', Dir [(''test_exp'', Link None)])]"

definition old_version :: version where
  "old_version =
     \<lparr>v_type = ''model'', v_name = ''me/test_exp/model'', v_index = 0, v_aliases = [''latest'']\<rparr>"

section \<open>The concrete environment, evaluated\<close>

lemma ex_model_dir: "log_model_dir example_env example_logger = ''/repo/utils/log/test_exp/model''"
  by code_simp

lemma ex_time: "get_formatted_date_time example_env = ''05-05-2021-22-14-31''"
  by code_simp

lemma ex_walk:
  "os_walk_first model_disk [] ''/repo/utils/log/test_exp/model'' =
     Some (''/repo/utils/log/test_exp/model'', [''ckpt''], [''model.pt''])"
  by code_simp

lemma ex_all_files:
  "all_files model_disk ''/repo/utils/log/test_exp/model'' [''model.pt'']"
  by code_simp

lemma ex_join:
  "os_path_join ''/repo/utils/log/test_exp/model'' [''model.pt''] =
     ''/repo/utils/log/test_exp/model/model.pt''"
  by (simp add: os_path_join_def join2_def)

lemma ex_init:
  "init example_env [(''logger_name'', PyStr ''test_exp'')] (world_with (repo_with []) []) =
     (Inr example_logger,
      \<lparr>disk = repo_with [(''log'', Dir [(''test_exp'', Dir [(''model'', Dir []), (''dataset'', Dir [])])])],
       unreadable = [], stdout = [],
       calls = [Init ''test_exp'' [(''logger_name'', PyStr ''test_exp'')]],
       versions = []\<rparr>)"
  by code_simp

section \<open>Metrics\<close>

lemma dict_of_pair:
  "dict_of [(k1, v1), (k2, v2)] = (if k2 = k1 then [(k1, v2)] else [(k1, v1), (k2, v2)])"
  by (simp add: dict_of_def)

text \<open>
  Claim C4. \<^verbatim>\<open>log_info(epoch, key, value)\<close> sends exactly one record: the world changes
  by one \<open>Log\<close> request appended to the requests sent, and by nothing else. The record has
  the two fields \<^verbatim>\<open>Iteration\<close> and \<^verbatim>\<open>key\<close> (one field when the key is itself
  \<^verbatim>\<open>"Iteration"\<close>). In particular \<^verbatim>\<open>log_info(3, "loss", 0.42)\<close> sends the single record
  \<^verbatim>\<open>{"Iteration": 3, "loss": 0.42}\<close>. Nothing is kept back locally: the logger object is
  not changed and the request is in the sent list when the call returns.
\<close>

theorem log_info_one_record:
  "log_info self epoch key val w =
     w\<lparr>calls := calls w @ [Log (if key = ''Iteration'' then [(''Iteration'', val)]
                                else [(''Iteration'', epoch), (key, val)])]\<rparr>
   \<and> length (calls (log_info self epoch key val w)) = Suc (length (calls w))
   \<and> log_info self (PyInt 3) ''loss'' (PyFloat (42 / 100)) w =
     w\<lparr>calls := calls w @ [Log [(''Iteration'', PyInt 3), (''loss'', PyFloat (42 / 100))]]\<rparr>"
  by (simp add: log_info_def run_log_def dict_of_pair)

text \<open>
  Claim C10. When the key is the string \<^verbatim>\<open>"Iteration"\<close> the dictionary display stores
  the value under the key the epoch was stored under: the record sent has the single field
  \<^verbatim>\<open>Iteration\<close>, holding the caller's value, and the epoch is lost.
\<close>

theorem log_info_iteration_key:
  "log_info self epoch ''Iteration'' val w = w\<lparr>calls := calls w @ [Log [(''Iteration'', val)]]\<rparr>"
  by (simp add: log_info_def run_log_def dict_of_pair)

section \<open>Cleaning up versions without an alias\<close>

lemma delete_loop_versions:
  "versions (delete_loop vs w) = filter (\<lambda>v. \<not> (v \<in> set vs \<and> v_aliases v = [])) (versions w)"
proof (induction vs arbitrary: w)
  case Nil
  then show ?case by simp
next
  case (Cons v vs)
  show ?case
  proof (cases "v_aliases v = []")
    case True
    have "filter (\<lambda>x. \<not> (x \<in> set vs \<and> v_aliases x = [])) (removeAll v (versions w)) =
          filter (\<lambda>x. \<not> (x \<in> set (v # vs) \<and> v_aliases x = [])) (versions w)"
      using True
      by (induction "versions w") (auto simp: removeAll_filter_not_eq filter_filter intro: filter_cong)
    then show ?thesis using True by (simp add: Cons.IH version_delete_def)
  next
    case False
    have "filter (\<lambda>x. \<not> (x \<in> set vs \<and> v_aliases x = [])) (versions w) =
          filter (\<lambda>x. \<not> (x \<in> set (v # vs) \<and> v_aliases x = [])) (versions w)"
      using False by (auto intro: filter_cong)
    then show ?thesis using False by (simp add: Cons.IH)
  qed
qed

lemma delete_loop_calls:
  "calls (delete_loop vs w) = calls w @ map Delete (filter (\<lambda>v. v_aliases v = []) vs)"
  by (induction vs arbitrary: w) (simp_all add: version_delete_def)

lemma delete_loop_local:
  "disk (delete_loop vs w) = disk w \<and> stdout (delete_loop vs w) = stdout w"
  by (induction vs arbitrary: w) (simp_all add: version_delete_def)

lemma delete_useless_model_versions:
  "versions (delete_useless_model self w) = filter (\<lambda>v. \<not> useless self v) (versions w)"
  by (auto simp: delete_useless_model_def Let_def artifact_versions_def delete_loop_versions
      useless_def model_collection_def intro: filter_cong)

lemma delete_useless_model_calls:
  "calls (delete_useless_model self w) =
     calls w @ ArtifactVersions ''model'' (model_collection self) #
       map Delete (filter (useless self) (versions w))"
proof -
  have "filter (\<lambda>v. v_aliases v = [])
          (filter (\<lambda>v. v_type v = ''model'' \<and> v_name v = model_collection self) (versions w))
        = filter (useless self) (versions w)"
    by (auto simp: useless_def intro: filter_cong)
  then show ?thesis
    by (simp add: delete_useless_model_def Let_def artifact_versions_def delete_loop_calls
        model_collection_def)
qed

lemma delete_useless_model_local:
  "disk (delete_useless_model self w) = disk w \<and> stdout (delete_useless_model self w) = stdout w"
  by (simp add: delete_useless_model_def Let_def artifact_versions_def delete_loop_local)

text \<open>
  Claim C3. \<^verbatim>\<open>delete_useless_model\<close> is idempotent. Whatever versions the server holds,
  a second run right after the first leaves the versions as the first run left them, and
  it deletes nothing: the only request it sends is the listing. After the first run no
  version of the collection is without an alias.
\<close>

theorem delete_useless_model_idempotent:
  "versions (delete_useless_model self (delete_useless_model self w)) =
     versions (delete_useless_model self w)
   \<and> calls (delete_useless_model self (delete_useless_model self w)) =
     calls (delete_useless_model self w) @ [ArtifactVersions ''model'' (model_collection self)]
   \<and> filter (useless self) (versions (delete_useless_model self w)) = []"
  by (simp add: delete_useless_model_versions delete_useless_model_calls)

section \<open>Uploading the model\<close>

lemma add_files_eq:
  "add_files fs dir fns a =
     (if all_files fs dir fns
      then Inr (a\<lparr>art_files := art_files a @ map (\<lambda>f. os_path_join dir [f]) fns\<rparr>)
      else Inl ValueError)"
  by (induction fns arbitrary: a) (simp_all add: add_file_def all_files_def)

lemma log_model_dir_nonempty: "log_model_dir e self \<noteq> []"
  by (simp add: log_model_dir_def)

lemma log_model_unlisted:
  assumes "os_walk_first (disk w) (unreadable w) (log_model_dir e self) = None"
  shows "log_model e self finished w =
     (Inl SystemExit,
      w\<lparr>stdout := stdout w @ [''Cannot read files from directory:  '' @ log_model_dir e self]\<rparr>)"
  using assms by (simp add: log_model_def get_file_names_in_directory_def)

lemma log_model_rejected:
  assumes "os_walk_first (disk w) (unreadable w) (log_model_dir e self) = Some (d, ds, fns)"
    and "\<not> all_files (disk w) (log_model_dir e self) fns"
  shows "log_model e self finished w = (Inl ValueError, w)"
  using assms by (simp add: log_model_def get_file_names_in_directory_def add_files_eq)

lemma log_model_listed:
  assumes "os_walk_first (disk w) (unreadable w) (log_model_dir e self) = Some (d, ds, fns)"
    and "all_files (disk w) (log_model_dir e self) fns"
  shows "log_model e self finished w =
     (Inr (),
      if finished
      then delete_useless_model self
             (log_artifact e (model_artifact_of (log_model_dir e self) fns)
                [''latest'', ''finished-'' @ get_formatted_date_time e] w)
      else log_artifact e (model_artifact_of (log_model_dir e self) fns) [''latest''] w)"
  using assms
  by (simp add: log_model_def get_file_names_in_directory_def add_files_eq model_artifact_of_def
      Let_def)

lemma upload_aliases_Delete:
  "upload_aliases (map Delete vs) = []"
  by (induction vs) simp_all

lemma log_model_sent:
  "upload_aliases (sent_by w (snd (log_model e self finished w))) = []
   \<or> upload_aliases (sent_by w (snd (log_model e self finished w))) =
       [if finished then [''latest'', ''finished-'' @ get_formatted_date_time e] else [''latest'']]"
proof (cases "os_walk_first (disk w) (unreadable w) (log_model_dir e self)")
  case None
  then show ?thesis by (simp add: log_model_unlisted sent_by_def)
next
  case (Some t)
  then obtain d ds fns where t: "os_walk_first (disk w) (unreadable w) (log_model_dir e self) = Some (d, ds, fns)"
    by (cases t) auto
  show ?thesis
  proof (cases "all_files (disk w) (log_model_dir e self) fns")
    case True
    then show ?thesis
      by (simp add: log_model_listed [OF t] sent_by_def log_artifact_def
          delete_useless_model_calls upload_aliases_Delete)
  next
    case False
    then show ?thesis by (simp add: log_model_rejected [OF t] sent_by_def)
  qed
qed

subsection \<open>The timestamp\<close>

text \<open>
  Two calendar clocks that give the same timestamp show the same second: the timestamp
  holds every digit of the six numbers.
\<close>

declare str_nat.simps [simp del]

lemma digit_inj:
  assumes "a < 10" "b < 10" "''0123456789'' ! a = ''0123456789'' ! b"
  shows "a = b"
proof -
  have "distinct ''0123456789''" by simp
  then show ?thesis using assms by (simp add: nth_eq_iff_index_eq)
qed

lemma str_nat_small: "n < 10 \<Longrightarrow> str_nat n = [''0123456789'' ! n]"
  by (subst str_nat.simps) simp

lemma str_nat_step: "10 \<le> n \<Longrightarrow> str_nat n = str_nat (n div 10) @ [''0123456789'' ! (n mod 10)]"
  by (subst str_nat.simps) simp

lemma div_10_10: "(n::nat) div 10 div 10 = n div 100"
  using div_mult2_eq [of n 10 10] by simp

lemma div_100_10: "(n::nat) div 100 div 10 = n div 1000"
  using div_mult2_eq [of n 100 10] by simp

lemma div_mod_10_eq: "(n::nat) div 10 = m div 10 \<Longrightarrow> n mod 10 = m mod 10 \<Longrightarrow> n = m"
  by (metis div_mult_mod_eq)

lemma pad2_digits:
  "n < 100 \<Longrightarrow> pad2 n = [''0123456789'' ! (n div 10), ''0123456789'' ! (n mod 10)]"
  by (cases "n < 10") (simp_all add: pad2_def str_nat_small str_nat_step div_less_iff_less_mult)

lemma str_nat_year:
  assumes "1000 \<le> n" "n \<le> 9999"
  shows "str_nat n = [''0123456789'' ! (n div 1000), ''0123456789'' ! (n div 100 mod 10),
                      ''0123456789'' ! (n div 10 mod 10), ''0123456789'' ! (n mod 10)]"
proof -
  have "10 \<le> n" using assms by simp
  then have s1: "str_nat n = str_nat (n div 10) @ [''0123456789'' ! (n mod 10)]"
    by (rule str_nat_step)
  have "10 \<le> n div 10" using assms by (simp add: less_eq_div_iff_mult_less_eq)
  from str_nat_step [OF this]
  have s2: "str_nat (n div 10) = str_nat (n div 100) @ [''0123456789'' ! (n div 10 mod 10)]"
    by (simp only: div_10_10)
  have "10 \<le> n div 100" using assms by (simp add: less_eq_div_iff_mult_less_eq)
  from str_nat_step [OF this]
  have s3: "str_nat (n div 100) = str_nat (n div 1000) @ [''0123456789'' ! (n div 100 mod 10)]"
    by (simp only: div_100_10)
  have "n div 1000 < 10" using assms by (simp add: div_less_iff_less_mult)
  then have s4: "str_nat (n div 1000) = [''0123456789'' ! (n div 1000)]"
    by (rule str_nat_small)
  show ?thesis by (simp only: s1 s2 s3 s4 append_Cons append_Nil)
qed

lemma two_digits_inj:
  assumes "n < 100" "m < 100"
    "''0123456789'' ! (n div 10) = ''0123456789'' ! (m div 10)"
    "''0123456789'' ! (n mod 10) = ''0123456789'' ! (m mod 10)"
  shows "n = m"
proof -
  have "n div 10 < 10" "m div 10 < 10" "n mod 10 < 10" "m mod 10 < 10"
    using assms(1,2) by (simp_all add: div_less_iff_less_mult)
  then have "n div 10 = m div 10" "n mod 10 = m mod 10"
    using assms(3,4) digit_inj by blast+
  then show ?thesis by (rule div_mod_10_eq)
qed

lemma four_digits_inj:
  assumes "n \<le> 9999" "m \<le> 9999"
    "''0123456789'' ! (n div 1000) = ''0123456789'' ! (m div 1000)"
    "''0123456789'' ! (n div 100 mod 10) = ''0123456789'' ! (m div 100 mod 10)"
    "''0123456789'' ! (n div 10 mod 10) = ''0123456789'' ! (m div 10 mod 10)"
    "''0123456789'' ! (n mod 10) = ''0123456789'' ! (m mod 10)"
  shows "n = m"
proof -
  have b: "n div 1000 < 10" "m div 1000 < 10"
    using assms(1,2) by (simp_all add: div_less_iff_less_mult)
  have 1: "n div 1000 = m div 1000" using digit_inj [OF b(1) b(2) assms(3)] .
  have 2: "n div 100 mod 10 = m div 100 mod 10" using digit_inj [OF _ _ assms(4)] by simp
  have 3: "n div 10 mod 10 = m div 10 mod 10" using digit_inj [OF _ _ assms(5)] by simp
  have 4: "n mod 10 = m mod 10" using digit_inj [OF _ _ assms(6)] by simp
  have "n div 100 = m div 100"
    using div_mod_10_eq [of "n div 100" "m div 100"] 1 2 by (simp add: div_100_10)
  then have "n div 10 = m div 10"
    using div_mod_10_eq [of "n div 10" "m div 10"] 3 by (simp add: div_10_10)
  then show ?thesis using 4 by (rule div_mod_10_eq)
qed

lemma stamp_digits:
  assumes "calendar (clock e)"
  shows "get_formatted_date_time e =
    [''0123456789'' ! (day (clock e) div 10), ''0123456789'' ! (day (clock e) mod 10), CHR ''-'',
     ''0123456789'' ! (month (clock e) div 10), ''0123456789'' ! (month (clock e) mod 10), CHR ''-'',
     ''0123456789'' ! (year (clock e) div 1000), ''0123456789'' ! (year (clock e) div 100 mod 10),
     ''0123456789'' ! (year (clock e) div 10 mod 10), ''0123456789'' ! (year (clock e) mod 10), CHR ''-'',
     ''0123456789'' ! (hour (clock e) div 10), ''0123456789'' ! (hour (clock e) mod 10), CHR ''-'',
     ''0123456789'' ! (minute (clock e) div 10), ''0123456789'' ! (minute (clock e) mod 10), CHR ''-'',
     ''0123456789'' ! (second (clock e) div 10), ''0123456789'' ! (second (clock e) mod 10)]"
proof -
  let ?t = "clock e"
  have r: "day ?t < 100" "month ?t < 100" "hour ?t < 100" "minute ?t < 100" "second ?t < 100"
          "1000 \<le> year ?t" "year ?t \<le> 9999"
    using assms by (auto simp: calendar_def)
  show ?thesis
    unfolding get_formatted_date_time_def Let_def
    by (simp only: pad2_digits [OF r(1)] pad2_digits [OF r(2)] pad2_digits [OF r(3)]
        pad2_digits [OF r(4)] pad2_digits [OF r(5)] str_nat_year [OF r(6) r(7)]
        append_Cons append_Nil)
qed

lemma stamp_inj:
  assumes "calendar (clock e)" "calendar (clock e')"
    "get_formatted_date_time e = get_formatted_date_time e'"
  shows "clock e = clock e'"
proof -
  let ?t = "clock e" and ?u = "clock e'"
  have r: "day ?t < 100" "month ?t < 100" "hour ?t < 100" "minute ?t < 100" "second ?t < 100"
          "day ?u < 100" "month ?u < 100" "hour ?u < 100" "minute ?u < 100" "second ?u < 100"
          "year ?t \<le> 9999" "year ?u \<le> 9999"
    using assms(1,2) by (auto simp: calendar_def)
  from assms(3) have eq:
    "''0123456789'' ! (day ?t div 10) = ''0123456789'' ! (day ?u div 10)"
    "''0123456789'' ! (day ?t mod 10) = ''0123456789'' ! (day ?u mod 10)"
    "''0123456789'' ! (month ?t div 10) = ''0123456789'' ! (month ?u div 10)"
    "''0123456789'' ! (month ?t mod 10) = ''0123456789'' ! (month ?u mod 10)"
    "''0123456789'' ! (year ?t div 1000) = ''0123456789'' ! (year ?u div 1000)"
    "''0123456789'' ! (year ?t div 100 mod 10) = ''0123456789'' ! (year ?u div 100 mod 10)"
    "''0123456789'' ! (year ?t div 10 mod 10) = ''0123456789'' ! (year ?u div 10 mod 10)"
    "''0123456789'' ! (year ?t mod 10) = ''0123456789'' ! (year ?u mod 10)"
    "''0123456789'' ! (hour ?t div 10) = ''0123456789'' ! (hour ?u div 10)"
    "''0123456789'' ! (hour ?t mod 10) = ''0123456789'' ! (hour ?u mod 10)"
    "''0123456789'' ! (minute ?t div 10) = ''0123456789'' ! (minute ?u div 10)"
    "''0123456789'' ! (minute ?t mod 10) = ''0123456789'' ! (minute ?u mod 10)"
    "''0123456789'' ! (second ?t div 10) = ''0123456789'' ! (second ?u div 10)"
    "''0123456789'' ! (second ?t mod 10) = ''0123456789'' ! (second ?u mod 10)"
    unfolding stamp_digits [OF assms(1)] stamp_digits [OF assms(2)] list.inject
    by blast+
  have "day ?t = day ?u" using two_digits_inj [OF r(1) r(6) eq(1) eq(2)] .
  moreover have "month ?t = month ?u" using two_digits_inj [OF r(2) r(7) eq(3) eq(4)] .
  moreover have "hour ?t = hour ?u" using two_digits_inj [OF r(3) r(8) eq(9) eq(10)] .
  moreover have "minute ?t = minute ?u" using two_digits_inj [OF r(4) r(9) eq(11) eq(12)] .
  moreover have "second ?t = second ?u" using two_digits_inj [OF r(5) r(10) eq(13) eq(14)] .
  moreover have "year ?t = year ?u"
    using four_digits_inj [OF r(11) r(12) eq(5) eq(6) eq(7) eq(8)] .
  ultimately show ?thesis by simp
qed

subsection \<open>The aliases\<close>

text \<open>
  Claim C1. When the model directory can be listed and every name listed is a regular
  file, so that \<^verbatim>\<open>log_model\<close> uploads: \<^verbatim>\<open>log_model(finished=False)\<close> sends one
  upload, with exactly the aliases \<^verbatim>\<open>["latest"]\<close>, and nothing after it;
  \<^verbatim>\<open>log_model(finished=True)\<close> uploads with exactly
  \<^verbatim>\<open>["latest", "finished-<timestamp>"]\<close> and then runs the cleanup: the versions are
  listed, every version of the collection that is without an alias after the upload is
  deleted, and no other. In every world, whatever the directory holds, a call of
  \<^verbatim>\<open>log_model\<close> sends no upload or one upload with exactly these aliases. The timestamp
  is day, month, year, hour, minute and second of the clock, in this order, joined by
  hyphens, all but the year padded to two digits; so two calendar clocks that give the
  same timestamp are the same.
\<close>

theorem log_model_aliases:
  "(os_walk_first (disk w) (unreadable w) (log_model_dir e self) = Some (d, ds, fns)
      \<and> all_files (disk w) (log_model_dir e self) fns \<longrightarrow>
      log_model e self False w =
        (Inr (),
         w\<lparr>calls := calls w @ [LogArtifact (model_artifact_of (log_model_dir e self) fns) [''latest'']],
           versions := store e (model_artifact_of (log_model_dir e self) fns) [''latest''] (versions w)\<rparr>)
      \<and> (let a = model_artifact_of (log_model_dir e self) fns;
               aliases = [''latest'', ''finished-'' @ get_formatted_date_time e];
               w' = snd (log_model e self True w)
           in fst (log_model e self True w) = Inr ()
              \<and> calls w' =
                  calls w @ LogArtifact a aliases # ArtifactVersions ''model'' (model_collection self) #
                    map Delete (filter (useless self) (store e a aliases (versions w)))
              \<and> versions w' = filter (\<lambda>v. \<not> useless self v) (store e a aliases (versions w))))
   \<and> (upload_aliases (sent_by w (snd (log_model e self finished w))) = []
       \<or> upload_aliases (sent_by w (snd (log_model e self finished w))) =
           [if finished then [''latest'', ''finished-'' @ get_formatted_date_time e] else [''latest'']])
   \<and> get_formatted_date_time e =
       pad2 (day (clock e)) @ ''-'' @ pad2 (month (clock e)) @ ''-'' @ str_nat (year (clock e)) @ ''-'' @
       pad2 (hour (clock e)) @ ''-'' @ pad2 (minute (clock e)) @ ''-'' @ pad2 (second (clock e))
   \<and> (calendar (clock e) \<and> calendar (clock e') \<and>
       get_formatted_date_time e = get_formatted_date_time e' \<longrightarrow> clock e = clock e')"
proof -
  have 1: "log_model e self False w =
        (Inr (),
         w\<lparr>calls := calls w @ [LogArtifact (model_artifact_of (log_model_dir e self) fns) [''latest'']],
           versions := store e (model_artifact_of (log_model_dir e self) fns) [''latest''] (versions w)\<rparr>)
      \<and> (let a = model_artifact_of (log_model_dir e self) fns;
               aliases = [''latest'', ''finished-'' @ get_formatted_date_time e];
               w' = snd (log_model e self True w)
           in fst (log_model e self True w) = Inr ()
              \<and> calls w' =
                  calls w @ LogArtifact a aliases # ArtifactVersions ''model'' (model_collection self) #
                    map Delete (filter (useless self) (store e a aliases (versions w)))
              \<and> versions w' = filter (\<lambda>v. \<not> useless self v) (store e a aliases (versions w)))"
    if "os_walk_first (disk w) (unreadable w) (log_model_dir e self) = Some (d, ds, fns)"
      and "all_files (disk w) (log_model_dir e self) fns"
    by (simp add: log_model_listed [OF that] log_artifact_def Let_def
        delete_useless_model_calls delete_useless_model_versions)
  have 3: "get_formatted_date_time e =
       pad2 (day (clock e)) @ ''-'' @ pad2 (month (clock e)) @ ''-'' @ str_nat (year (clock e)) @ ''-'' @
       pad2 (hour (clock e)) @ ''-'' @ pad2 (minute (clock e)) @ ''-'' @ pad2 (second (clock e))"
    by (simp add: get_formatted_date_time_def Let_def)
  show ?thesis
    using 1 log_model_sent [of w e self finished] 3 stamp_inj [of e e'] by blast
qed

text \<open>
  An instance: the model directory holds \<^verbatim>\<open>model.pt\<close> and a subdirectory, the clock
  shows 5 May 2021, 22:14:31, and the server holds a version without an alias.
\<close>

theorem log_model_aliases_witness:
  "os_walk_first (disk (world_with model_disk [old_version])) (unreadable (world_with model_disk [old_version]))
     (log_model_dir example_env example_logger) =
     Some (''/repo/utils/log/test_exp/model'', [''ckpt''], [''model.pt''])
   \<and> all_files (disk (world_with model_disk [old_version])) (log_model_dir example_env example_logger)
       [''model.pt'']
   \<and> calendar (clock example_env)
   \<and> get_formatted_date_time example_env = ''05-05-2021-22-14-31''
   \<and> calendar (clock (example_env\<lparr>account := ''you''\<rparr>))
   \<and> get_formatted_date_time (example_env\<lparr>account := ''you''\<rparr>) = ''05-05-2021-22-14-31''
   \<and> clock example_env = clock (example_env\<lparr>account := ''you''\<rparr>)
   \<and> calls (snd (log_model example_env example_logger False (world_with model_disk [old_version]))) =
       [LogArtifact \<lparr>art_name = ''model'', art_type = ''model'',
                     art_files = [''/repo/utils/log/test_exp/model/model.pt'']\<rparr> [''latest'']]
   \<and> calls (snd (log_model example_env example_logger True (world_with model_disk [old_version]))) =
       [LogArtifact \<lparr>art_name = ''model'', art_type = ''model'',
                     art_files = [''/repo/utils/log/test_exp/model/model.pt'']\<rparr>
          [''latest'', ''finished-05-05-2021-22-14-31''],
        ArtifactVersions ''model'' ''me/test_exp/model'',
        Delete (old_version\<lparr>v_aliases := []\<rparr>)]
   \<and> versions (snd (log_model example_env example_logger True (world_with model_disk [old_version]))) =
       [\<lparr>v_type = ''model'', v_name = ''me/test_exp/model'', v_index = 1,
         v_aliases = [''latest'', ''finished-05-05-2021-22-14-31'']\<rparr>]"
proof -
  have st: "store example_env = (\<lambda>a aliases vs.
                 \<lparr>v_type = art_type a, v_name = ''me/test_exp/'' @ art_name a,
                  v_index = length vs, v_aliases = aliases\<rparr> #
                 map (\<lambda>v. v\<lparr>v_aliases := filter (\<lambda>x. \<not> List.member aliases x) (v_aliases v)\<rparr>) vs)"
    by (simp add: example_env_def)
  have mc: "model_collection example_logger = ''me/test_exp/model''"
    by (simp add: model_collection_def example_logger_def)
  have h: "os_walk_first (disk (world_with model_disk [old_version]))
             (unreadable (world_with model_disk [old_version]))
             (log_model_dir example_env example_logger) =
           Some (''/repo/utils/log/test_exp/model'', [''ckpt''], [''model.pt''])"
    by (simp add: world_with_def ex_model_dir ex_walk)
  have af: "all_files (disk (world_with model_disk [old_version]))
              (log_model_dir example_env example_logger) [''model.pt'']"
    by (simp add: world_with_def ex_model_dir ex_all_files)
  have cal: "calendar (clock example_env)"
    by (simp add: calendar_def example_env_def)
  have cal': "calendar (clock (example_env\<lparr>account := ''you''\<rparr>))"
    by (simp add: calendar_def example_env_def)
  have tm': "get_formatted_date_time (example_env\<lparr>account := ''you''\<rparr>) = ''05-05-2021-22-14-31''"
    by code_simp
  have eq: "get_formatted_date_time example_env = get_formatted_date_time (example_env\<lparr>account := ''you''\<rparr>)"
    by (simp add: ex_time tm')
  note t = log_model_aliases [where w = "world_with model_disk [old_version]" and e = example_env
      and self = example_logger and d = "''/repo/utils/log/test_exp/model''" and ds = "[''ckpt'']"
      and fns = "[''model.pt'']" and finished = True and e' = "example_env\<lparr>account := ''you''\<rparr>"]
  note same = t [THEN conjunct2, THEN conjunct2, THEN conjunct2, THEN mp,
      OF conjI [OF cal conjI [OF cal' eq]]]
  from t [THEN conjunct1, THEN mp, OF conjI [OF h af]] same tm' show ?thesis
    by (simp add: ex_walk ex_all_files cal cal' ex_model_dir ex_time st mc ex_join Let_def
        model_artifact_of_def world_with_def old_version_def useless_def)
qed

subsection \<open>The files\<close>

lemma log_model_dir_walk:
  assumes "stat (disk w) (components (log_model_dir e self)) = Some (Dir es)"
    and "\<not> List.member (unreadable w) (components (log_model_dir e self))"
  shows "os_walk_first (disk w) (unreadable w) (log_model_dir e self) =
          Some (log_model_dir e self, map fst (filter (\<lambda>en. is_dir (snd en)) es),
                map fst (filter (\<lambda>en. \<not> is_dir (snd en)) es))"
  using assms by (simp add: os_walk_first_def log_model_dir_nonempty)

text \<open>
  Claim C8. The claim is for every state of the model directory; it holds for those in
  which every entry that is not a directory is a regular file. Let the model directory be
  a directory the process may read. If each of its entries that is not a directory
  (possibly through a link) is a regular file (possibly through a link),
  \<^verbatim>\<open>log_model\<close> succeeds and the artifact it uploads holds exactly these entries, each
  as the directory's path joined with the entry's name, in directory order; the upload is
  the first request the call sends. If one of them is not a regular file, as is a
  symbolic link whose target is gone, \<^verbatim>\<open>add_file\<close> raises \<^verbatim>\<open>ValueError\<close>:
  \<^verbatim>\<open>log_model\<close> ends with that error and nothing is uploaded.
\<close>

theorem log_model_files:
  assumes "stat (disk w) (components (log_model_dir e self)) = Some (Dir es)"
    and "\<not> List.member (unreadable w) (components (log_model_dir e self))"
  shows "(all_files (disk w) (log_model_dir e self) (map fst (filter (\<lambda>en. \<not> is_dir (snd en)) es)) \<longrightarrow>
           (\<exists>aliases rest.
              fst (log_model e self finished w) = Inr ()
            \<and> calls (snd (log_model e self finished w)) =
                calls w @
                LogArtifact \<lparr>art_name = ''model'', art_type = ''model'',
                             art_files = map (\<lambda>f. os_path_join (log_model_dir e self) [f])
                                           (map fst (filter (\<lambda>en. \<not> is_dir (snd en)) es))\<rparr> aliases # rest))
       \<and> (\<not> all_files (disk w) (log_model_dir e self) (map fst (filter (\<lambda>en. \<not> is_dir (snd en)) es)) \<longrightarrow>
           log_model e self finished w = (Inl ValueError, w))"
proof (intro conjI impI)
  assume "all_files (disk w) (log_model_dir e self) (map fst (filter (\<lambda>en. \<not> is_dir (snd en)) es))"
  from log_model_listed [OF log_model_dir_walk [OF assms] this, of finished]
  show "\<exists>aliases rest.
              fst (log_model e self finished w) = Inr ()
            \<and> calls (snd (log_model e self finished w)) =
                calls w @
                LogArtifact \<lparr>art_name = ''model'', art_type = ''model'',
                             art_files = map (\<lambda>f. os_path_join (log_model_dir e self) [f])
                                           (map fst (filter (\<lambda>en. \<not> is_dir (snd en)) es))\<rparr> aliases # rest"
    by (cases finished) (simp_all add: log_artifact_def delete_useless_model_calls model_artifact_of_def)
next
  assume "\<not> all_files (disk w) (log_model_dir e self) (map fst (filter (\<lambda>en. \<not> is_dir (snd en)) es))"
  from log_model_rejected [OF log_model_dir_walk [OF assms] this, of finished]
  show "log_model e self finished w = (Inl ValueError, w)" .
qed

text \<open>
  A state of the model directory for which nothing is uploaded: beside \<^verbatim>\<open>model.pt\<close>
  it holds \<^verbatim>\<open>best.pt\<close>, a symbolic link whose target is gone. \<^verbatim>\<open>os.walk\<close> lists
  both names as files, and \<^verbatim>\<open>log_model\<close> ends with \<^verbatim>\<open>ValueError\<close>, with either value
  of \<^verbatim>\<open>finished\<close>, the world unchanged.
\<close>

theorem log_model_stale_link:
  "stat (disk (world_with stale_disk [])) (components (log_model_dir example_env example_logger)) =
     Some (Dir [(''model.pt'', File), (''best.pt'', Link None)])
   \<and> os_walk_first (disk (world_with stale_disk [])) (unreadable (world_with stale_disk []))
       (log_model_dir example_env example_logger) =
       Some (''/repo/utils/log/test_exp/model'', [], [''model.pt'', ''best.pt''])
   \<and> log_model example_env example_logger False (world_with stale_disk []) =
       (Inl ValueError, world_with stale_disk [])
   \<and> log_model example_env example_logger True (world_with stale_disk []) =
       (Inl ValueError, world_with stale_disk [])"
  by code_simp

text \<open>Both cases of the theorem, on the disk with the two files and on the disk with the link.\<close>

theorem log_model_files_witness:
  "stat (disk (world_with model_disk [])) (components (log_model_dir example_env example_logger)) =
     Some (Dir [(''model.pt'', File), (''ckpt'', Dir [])])
   \<and> \<not> List.member (unreadable (world_with model_disk []))
         (components (log_model_dir example_env example_logger))
   \<and> all_files (disk (world_with model_disk [])) (log_model_dir example_env example_logger) [''model.pt'']
   \<and> (\<exists>aliases rest.
         fst (log_model example_env example_logger True (world_with model_disk [])) = Inr ()
       \<and> calls (snd (log_model example_env example_logger True (world_with model_disk []))) =
           LogArtifact \<lparr>art_name = ''model'', art_type = ''model'',
                        art_files = [''/repo/utils/log/test_exp/model/model.pt'']\<rparr> aliases # rest)
   \<and> stat (disk (world_with stale_disk [])) (components (log_model_dir example_env example_logger)) =
       Some (Dir [(''model.pt'', File), (''best.pt'', Link None)])
   \<and> \<not> all_files (disk (world_with stale_disk [])) (log_model_dir example_env example_logger)
         [''model.pt'', ''best.pt'']
   \<and> log_model example_env example_logger True (world_with stale_disk []) =
       (Inl ValueError, world_with stale_disk [])"
proof -
  have n: "stat model_disk (components ''/repo/utils/log/test_exp/model'') =
             Some (Dir [(''model.pt'', File), (''ckpt'', Dir [])])"
    by code_simp
  have h: "stat (disk (world_with model_disk [])) (components (log_model_dir example_env example_logger)) =
             Some (Dir [(''model.pt'', File), (''ckpt'', Dir [])])"
    by (simp add: world_with_def ex_model_dir n)
  have u: "\<not> List.member (unreadable (world_with model_disk []))
         (components (log_model_dir example_env example_logger))"
    by (simp add: world_with_def)
  have af: "all_files (disk (world_with model_disk [])) (log_model_dir example_env example_logger)
              (map fst (filter (\<lambda>en. \<not> is_dir (snd en)) [(''model.pt'', File), (''ckpt'', Dir [])]))"
    by (simp add: world_with_def ex_model_dir ex_all_files is_dir_def)
  have a: "\<exists>aliases rest.
         fst (log_model example_env example_logger True (world_with model_disk [])) = Inr ()
       \<and> calls (snd (log_model example_env example_logger True (world_with model_disk []))) =
           LogArtifact \<lparr>art_name = ''model'', art_type = ''model'',
                        art_files = [''/repo/utils/log/test_exp/model/model.pt'']\<rparr> aliases # rest"
    using log_model_files [OF h u, of True, THEN conjunct1, THEN mp, OF af]
    by (simp add: ex_model_dir ex_join is_dir_def world_with_def)
  have n': "stat (disk (world_with stale_disk [])) (components (log_model_dir example_env example_logger)) =
       Some (Dir [(''model.pt'', File), (''best.pt'', Link None)])"
    by code_simp
  have u': "\<not> List.member (unreadable (world_with stale_disk []))
         (components (log_model_dir example_env example_logger))"
    by (simp add: world_with_def)
  have naf: "\<not> all_files (disk (world_with stale_disk [])) (log_model_dir example_env example_logger)
         [''model.pt'', ''best.pt'']"
    by code_simp
  have naf': "\<not> all_files (disk (world_with stale_disk [])) (log_model_dir example_env example_logger)
         (map fst (filter (\<lambda>en. \<not> is_dir (snd en)) [(''model.pt'', File), (''best.pt'', Link None)]))"
    using naf by (simp add: is_dir_def)
  have b: "log_model example_env example_logger True (world_with stale_disk []) =
       (Inl ValueError, world_with stale_disk [])"
    using log_model_files [OF n' u', of True, THEN conjunct2, THEN mp, OF naf'] .
  have af1: "all_files (disk (world_with model_disk [])) (log_model_dir example_env example_logger) [''model.pt'']"
    using af by (simp add: is_dir_def)
  show ?thesis using h u af1 a n' naf b by blast
qed

section \<open>A directory that cannot be listed\<close>

lemma get_file_names_fail:
  "os_walk_first (disk w) (unreadable w) directory = None \<Longrightarrow>
   get_file_names_in_directory directory w =
     (Inl SystemExit, w\<lparr>stdout := stdout w @ [''Cannot read files from directory:  '' @ directory]\<rparr>)"
  by (simp add: get_file_names_in_directory_def)

lemma os_walk_first_None:
  "os_walk_first fs locked directory = None \<longleftrightarrow>
     directory = [] \<or> List.member locked (components directory)
     \<or> stat fs (components directory) = None
     \<or> stat fs (components directory) = Some File
     \<or> (\<exists>t. stat fs (components directory) = Some (Link t))"
  by (auto simp: os_walk_first_def split: option.splits node.splits)

text \<open>
  Claim C5. The claim says that no recovery in the process is possible; what holds is
  that the module raises \<^verbatim>\<open>SystemExit\<close> and does not handle it, and a caller can. When
  the path is empty, or (having neither of the names \<^verbatim>\<open>.\<close> and \<^verbatim>\<open>..\<close>) is
  missing, names a file, or names a directory the process may not read, \<^verbatim>\<open>os.walk\<close>
  yields nothing. Whenever it yields nothing,
  \<^verbatim>\<open>get_file_names_in_directory\<close> prints one line and ends with \<^verbatim>\<open>SystemExit\<close>, the
  exception \<^verbatim>\<open>exit()\<close> raises: it returns no value and no other error. A caller that
  wraps the call in \<^verbatim>\<open>try\<close> with a handler for \<^verbatim>\<open>SystemExit\<close> goes on in its handler,
  in the world with the line printed. \<^verbatim>\<open>log_model\<close> does not handle the exception: it
  ends with \<^verbatim>\<open>SystemExit\<close> too, having sent nothing. Neither does \<^verbatim>\<open>load_model\<close>,
  when the directory cannot be listed after the download.
\<close>

theorem listing_failure_exits:
  "(directory = []
      \<or> names_only directory
          \<and> (stat (disk w) (components directory) = None
               \<or> stat (disk w) (components directory) = Some File
               \<or> List.member (unreadable w) (components directory)) \<longrightarrow>
      os_walk_first (disk w) (unreadable w) directory = None)
   \<and> (os_walk_first (disk w) (unreadable w) directory = None \<longrightarrow>
      get_file_names_in_directory directory w =
        (Inl SystemExit, w\<lparr>stdout := stdout w @ [''Cannot read files from directory:  '' @ directory]\<rparr>)
      \<and> try_except (get_file_names_in_directory directory) SystemExit handler w =
          handler (w\<lparr>stdout := stdout w @ [''Cannot read files from directory:  '' @ directory]\<rparr>))
   \<and> (os_walk_first (disk w) (unreadable w) (log_model_dir e self) = None \<longrightarrow>
      log_model e self finished w =
        (Inl SystemExit,
         w\<lparr>stdout := stdout w @ [''Cannot read files from directory:  '' @ log_model_dir e self]\<rparr>))
   \<and> (py_eval e (''self._'' @ drop 11 model_api) self w = (Inr (ArtifactObj a), w1) \<and>
      os_walk_first (fetch e a (log_model_dir e self) (disk w1)) (unreadable w1)
        (log_model_dir e self) = None \<longrightarrow>
      load_model e self model_api w =
        (Inl SystemExit,
         w1\<lparr>calls := calls w1 @ [Download a (log_model_dir e self)],
            disk := fetch e a (log_model_dir e self) (disk w1),
            stdout := stdout w1 @ [''Cannot read files from directory:  '' @ log_model_dir e self]\<rparr>))"
proof (intro conjI impI)
  assume "directory = []
      \<or> names_only directory
          \<and> (stat (disk w) (components directory) = None
               \<or> stat (disk w) (components directory) = Some File
               \<or> List.member (unreadable w) (components directory))"
  then show "os_walk_first (disk w) (unreadable w) directory = None"
    unfolding os_walk_first_None by blast
next
  assume n: "os_walk_first (disk w) (unreadable w) directory = None"
  show "get_file_names_in_directory directory w =
        (Inl SystemExit, w\<lparr>stdout := stdout w @ [''Cannot read files from directory:  '' @ directory]\<rparr>)"
    by (rule get_file_names_fail [OF n])
  show "try_except (get_file_names_in_directory directory) SystemExit handler w =
          handler (w\<lparr>stdout := stdout w @ [''Cannot read files from directory:  '' @ directory]\<rparr>)"
    by (simp add: try_except_def get_file_names_fail [OF n])
next
  assume "os_walk_first (disk w) (unreadable w) (log_model_dir e self) = None"
  then show "log_model e self finished w =
        (Inl SystemExit,
         w\<lparr>stdout := stdout w @ [''Cannot read files from directory:  '' @ log_model_dir e self]\<rparr>)"
    by (rule log_model_unlisted)
next
  assume "py_eval e (''self._'' @ drop 11 model_api) self w = (Inr (ArtifactObj a), w1) \<and>
      os_walk_first (fetch e a (log_model_dir e self) (disk w1)) (unreadable w1)
        (log_model_dir e self) = None"
  then show "load_model e self model_api w =
        (Inl SystemExit,
         w1\<lparr>calls := calls w1 @ [Download a (log_model_dir e self)],
            disk := fetch e a (log_model_dir e self) (disk w1),
            stdout := stdout w1 @ [''Cannot read files from directory:  '' @ log_model_dir e self]\<rparr>)"
    by (simp add: load_model_def artifact_download_def get_file_names_in_directory_def Let_def)
qed

text \<open>
  Recovery in the process: on a disk without a log directory \<^verbatim>\<open>log_model\<close> ends with
  \<^verbatim>\<open>SystemExit\<close>, and a caller that handles \<^verbatim>\<open>SystemExit\<close> returns normally.
\<close>

theorem exit_is_catchable:
  "os_walk_first (disk (world_with (repo_with []) [])) (unreadable (world_with (repo_with []) []))
     (log_model_dir example_env example_logger) = None
   \<and> log_model example_env example_logger False (world_with (repo_with []) []) =
       (Inl SystemExit,
        (world_with (repo_with []) [])
          \<lparr>stdout := [''Cannot read files from directory:  /repo/utils/log/test_exp/model'']\<rparr>)
   \<and> try_except (log_model example_env example_logger False) SystemExit (\<lambda>w. (Inr (), w))
       (world_with (repo_with []) []) =
       (Inr (),
        (world_with (repo_with []) [])
          \<lparr>stdout := [''Cannot read files from directory:  /repo/utils/log/test_exp/model'']\<rparr>)"
  by code_simp

text \<open>
  Instances: a path that is missing, and a model directory that may not be read, for
  \<^verbatim>\<open>log_model\<close> and, after a download, for \<^verbatim>\<open>load_model\<close>.
\<close>

theorem listing_failure_exits_witness:
  "names_only ''/nowhere''
   \<and> stat (disk (world_with (repo_with []) [])) (components ''/nowhere'') = None
   \<and> os_walk_first (disk (world_with (repo_with []) [])) (unreadable (world_with (repo_with []) []))
       ''/nowhere'' = None
   \<and> get_file_names_in_directory ''/nowhere'' (world_with (repo_with []) []) =
       (Inl SystemExit,
        (world_with (repo_with []) [])\<lparr>stdout := [''Cannot read files from directory:  /nowhere'']\<rparr>)
   \<and> try_except (get_file_names_in_directory ''/nowhere'') SystemExit (\<lambda>w. (Inr [], w))
       (world_with (repo_with []) []) =
       (Inr [],
        (world_with (repo_with []) [])\<lparr>stdout := [''Cannot read files from directory:  /nowhere'']\<rparr>)
   \<and> names_only (log_model_dir example_env example_logger)
   \<and> List.member (unreadable locked_world) (components (log_model_dir example_env example_logger))
   \<and> os_walk_first (disk locked_world) (unreadable locked_world)
       (log_model_dir example_env example_logger) = None
   \<and> log_model example_env example_logger True locked_world =
       (Inl SystemExit,
        locked_world\<lparr>stdout := [''Cannot read files from directory:  /repo/utils/log/test_exp/model'']\<rparr>)
   \<and> py_eval example_env (''self._'' @ drop 11 ''artifact = run.use_artifact('model:latest')'')
       example_logger locked_world =
       (Inr (ArtifactObj old_version), locked_world\<lparr>calls := [UseArtifact ''model:latest'']\<rparr>)
   \<and> load_model example_env example_logger ''artifact = run.use_artifact('model:latest')''
       locked_world =
       (Inl SystemExit,
        locked_world
          \<lparr>calls := [UseArtifact ''model:latest'',
                     Download old_version ''/repo/utils/log/test_exp/model''],
           stdout := [''Cannot read files from directory:  /repo/utils/log/test_exp/model'']\<rparr>)"
proof -
  let ?W = "world_with (repo_with []) []"
  let ?L1 = "locked_world\<lparr>calls := [UseArtifact ''model:latest'']\<rparr>"
  have 1: "stat (disk ?W) (components ''/nowhere'') = None"
    by code_simp
  have 2: "List.member (unreadable locked_world) (components (log_model_dir example_env example_logger))"
    by code_simp
  have n1: "names_only ''/nowhere''"
    by code_simp
  have n2: "names_only (log_model_dir example_env example_logger)"
    by code_simp
  have 3: "py_eval example_env (''self._'' @ drop 11 ''artifact = run.use_artifact('model:latest')'')
             example_logger locked_world = (Inr (ArtifactObj old_version), ?L1)"
    by (simp add: example_env_def old_version_def locked_world_def)
  have f: "fetch example_env old_version (log_model_dir example_env example_logger)
             (disk locked_world) = disk locked_world"
    by code_simp
  note t = listing_failure_exits [where e = example_env and self = example_logger
      and finished = True and a = old_version]
  have a: "os_walk_first (disk ?W) (unreadable ?W) ''/nowhere'' = None"
    using t [where w = ?W and directory = "''/nowhere''", THEN conjunct1] n1 1 by blast
  note b = t [where w = ?W and directory = "''/nowhere''" and handler = "\<lambda>w. (Inr [], w)",
      THEN conjunct2, THEN conjunct1, THEN mp, OF a]
  have c: "os_walk_first (disk locked_world) (unreadable locked_world)
       (log_model_dir example_env example_logger) = None"
    using t [where w = locked_world and directory = "log_model_dir example_env example_logger",
      THEN conjunct1] n2 2 by blast
  note d = t [where w = locked_world, THEN conjunct2, THEN conjunct2, THEN conjunct1, THEN mp, OF c]
  have c': "os_walk_first (fetch example_env old_version (log_model_dir example_env example_logger)
                             (disk ?L1)) (unreadable ?L1)
              (log_model_dir example_env example_logger) = None"
    using c f by simp
  note g = t [where w = locked_world and ?w1.0 = ?L1
      and model_api = "''artifact = run.use_artifact('model:latest')''",
      THEN conjunct2, THEN conjunct2, THEN conjunct2, THEN mp, OF conjI [OF 3 c']]
  have g': "load_model example_env example_logger ''artifact = run.use_artifact('model:latest')''
       locked_world =
       (Inl SystemExit,
        locked_world
          \<lparr>calls := [UseArtifact ''model:latest'',
                     Download old_version ''/repo/utils/log/test_exp/model''],
           stdout := [''Cannot read files from directory:  /repo/utils/log/test_exp/model'']\<rparr>)"
    using g f by (simp add: ex_model_dir locked_world_def)
  have b': "get_file_names_in_directory ''/nowhere'' ?W =
       (Inl SystemExit, ?W\<lparr>stdout := [''Cannot read files from directory:  /nowhere'']\<rparr>)"
       "try_except (get_file_names_in_directory ''/nowhere'') SystemExit (\<lambda>w. (Inr [], w)) ?W =
       (Inr [], ?W\<lparr>stdout := [''Cannot read files from directory:  /nowhere'']\<rparr>)"
    using b by (simp_all add: world_with_def)
  have d': "log_model example_env example_logger True locked_world =
       (Inl SystemExit,
        locked_world\<lparr>stdout := [''Cannot read files from directory:  /repo/utils/log/test_exp/model'']\<rparr>)"
    using d by (simp add: ex_model_dir locked_world_def)
  show ?thesis using n1 1 a b' n2 2 c d' 3 g' by blast
qed

section \<open>Loading a model\<close>




section \<open>Constructing the logger\<close>

text \<open>
  Claim C6. A configuration without the key \<^verbatim>\<open>logger_name\<close> makes the constructor
  raise \<^verbatim>\<open>KeyError\<close> (the error the specification calls a configuration error) before
  anything else happens: no directory is touched and no run is opened.
\<close>

theorem init_missing_key:
  "map_of config ''logger_name'' = None \<Longrightarrow> init e config w = (Inl (KeyError ''logger_name''), w)"
  by (simp add: init_def)

text \<open>The configuration of the module's own \<^verbatim>\<open>__main__\<close> block is such a configuration.\<close>

theorem init_missing_key_witness:
  "map_of [(''logger'', PyDict [(''log_name'', PyStr ''test_exp'')])] ''logger_name'' = None
   \<and> init example_env [(''logger'', PyDict [(''log_name'', PyStr ''test_exp'')])]
        (world_with (repo_with []) []) =
       (Inl (KeyError ''logger_name''), world_with (repo_with []) [])"
  using init_missing_key [of "[(''logger'', PyDict [(''log_name'', PyStr ''test_exp'')])]"
      example_env "world_with (repo_with []) []"]
  by simp

lemma init_project_name:
  "init e config w = (Inr self, w') \<Longrightarrow>
   map_of config ''logger_name'' = Some (PyStr (project_name self))"
  by (auto simp: init_def wandb_init_def split: option.splits pyval.splits prod.splits sum.splits)

lemma dirname_absolute:
  assumes "p \<noteq> []" "hd p = CHR ''/''"
  shows "os_path_dirname p \<noteq> []"
proof -
  let ?head = "rev (dropWhile (\<lambda>c. c \<noteq> CHR ''/'') (rev p))"
  have "CHR ''/'' \<in> set (rev p)" using assms by (cases p) auto
  then have h: "?head \<noteq> []" by auto
  show ?thesis
  proof (cases "list_ex (\<lambda>c. c \<noteq> CHR ''/'') ?head")
    case True
    then have "rstrip_sep ?head \<noteq> []"
      unfolding rstrip_sep_def by (auto simp: list_ex_iff)
    then show ?thesis using True h by (simp add: os_path_dirname_def Let_def)
  next
    case False
    then show ?thesis using h by (simp add: os_path_dirname_def Let_def)
  qed
qed

lemma get_log_dir_relative:
  assumes "os_path_dirname (module_file e) \<noteq> []" "name = [] \<or> hd name \<noteq> CHR ''/''"
  shows "get_log_dir e name = base e @ ''/log/'' @ name"
proof -
  let ?d = "os_path_dirname (module_file e)"
  have 1: "join2 ?d ''log'' = base e @ ''/log''"
  proof (cases "last ?d = CHR ''/''")
    case True
    then have "butlast ?d @ ''/'' = ?d"
      using assms(1) append_butlast_last_id [of ?d] by simp
    then have "?d @ ''log'' = butlast ?d @ ''/log''"
      by (metis append.assoc append_Cons append_Nil)
    then show ?thesis using True assms(1) by (simp add: join2_def base_def Let_def)
  next
    case False
    then show ?thesis using assms(1) by (simp add: join2_def base_def Let_def)
  qed
  have 2: "join2 (base e @ ''/log'') name = base e @ ''/log/'' @ name"
    using assms(2) by (auto simp add: join2_def)
  show ?thesis by (simp add: get_log_dir_def os_path_join_def 1 2)
qed

text \<open>
  Claim C9. For the logger constructed from \<^verbatim>\<open>{"logger_name": "test_exp"}\<close>, the module
  lying at an absolute path (as \<^verbatim>\<open>realpath\<close> returns it), the log directory is
  \<^verbatim>\<open><base>/log/test_exp\<close>; and for every logger, whatever its project name, the dataset
  and model directories are the log directory followed by \<^verbatim>\<open>/dataset\<close> and \<^verbatim>\<open>/model\<close>.
\<close>

theorem log_dir_test_exp:
  assumes "init e [(''logger_name'', PyStr ''test_exp'')] w = (Inr self, w')"
    and "module_file e \<noteq> [] \<and> hd (module_file e) = CHR ''/''"
  shows "log_dir e self = base e @ ''/log/test_exp''
       \<and> (\<forall>lg. log_dataset_dir e lg = log_dir e lg @ ''/dataset''
              \<and> log_model_dir e lg = log_dir e lg @ ''/model'')"
proof -
  have "project_name self = ''test_exp''"
    using init_project_name [OF assms(1)] by simp
  moreover have "os_path_dirname (module_file e) \<noteq> []"
    using assms(2) by (simp add: dirname_absolute)
  ultimately have "log_dir e self = base e @ ''/log/test_exp''"
    by (simp add: log_dir_def get_log_dir_relative)
  then show ?thesis by (simp add: log_dataset_dir_def log_model_dir_def)
qed

theorem log_dir_test_exp_witness:
  "init example_env [(''logger_name'', PyStr ''test_exp'')] (world_with (repo_with []) []) =
     (Inr example_logger,
      \<lparr>disk = repo_with [(''log'', Dir [(''test_exp'', Dir [(''model'', Dir []), (''dataset'', Dir [])])])],
       unreadable = [], stdout = [], calls = [Init ''test_exp'' [(''logger_name'', PyStr ''test_exp'')]],
       versions = []\<rparr>)
   \<and> module_file example_env = ''/repo/utils/log.py''
   \<and> log_dir example_env example_logger = ''/repo/utils/log/test_exp''
   \<and> log_dataset_dir example_env example_logger = ''/repo/utils/log/test_exp/dataset''
   \<and> log_model_dir example_env example_logger = ''/repo/utils/log/test_exp/model''"
proof -
  have m: "module_file example_env = ''/repo/utils/log.py''"
    by (simp add: example_env_def)
  have b: "base example_env = ''/repo/utils''"
    by code_simp
  have a: "module_file example_env \<noteq> [] \<and> hd (module_file example_env) = CHR ''/''"
    by (simp add: m)
  from log_dir_test_exp [OF ex_init a] show ?thesis
    by (simp add: ex_init m b)
qed

section \<open>Resetting the log directory\<close>

lemma scandir_set_entries: "scandir n = Some es \<Longrightarrow> scandir (set_entries es' n) = Some es'"
  by (induction es' n rule: set_entries.induct) (auto simp: scandir_def)

lemma shape_set_entries: "shape (set_entries es n) = shape n"
  by (induction es n rule: set_entries.induct) auto

lemma follow_shape: "follow (shape n) = map_option shape (follow n)"
  by (induction n rule: follow.induct) auto

lemma is_dir_shape: "is_dir (shape n) = is_dir n"
  by (auto simp: is_dir_def follow_shape split: option.splits node.splits) (case_tac x2; simp)+

lemma is_dir_scandir: "is_dir n \<longleftrightarrow> scandir n \<noteq> None"
  by (auto simp: is_dir_def scandir_def split: option.splits node.splits)

lemma lstat_append:
  "lstat n (q @ r) = (case lstat n q of None \<Rightarrow> None | Some m \<Rightarrow> lstat m r)"
  by (induction q arbitrary: n) (auto split: option.splits)

lemma shape_alter: "shape (alter p v n) = shape n"
  by (induction p v n rule: alter.induct) (auto simp: shape_set_entries split: option.splits)

lemma alter_shape:
  "\<not> prefix p q \<Longrightarrow> map_option shape (lstat (alter p v n) q) = map_option shape (lstat n q)"
proof (induction p v n arbitrary: q rule: alter.induct)
  case (1 v n)
  then show ?case by simp
next
  case (2 c v n)
  show ?case
  proof (cases q)
    case Nil
    then show ?thesis by (simp add: shape_alter del: alter.simps)
  next
    case (Cons d qs)
    with 2 have "d \<noteq> c" by auto
    then show ?thesis using Cons
      by (auto simp: scandir_set_entries update_conv' delete_conv' split: option.splits)
  qed
next
  case (3 c d cs v n)
  show ?case
  proof (cases q)
    case Nil
    then show ?thesis by (simp add: shape_alter del: alter.simps)
  next
    case (Cons d' qs)
    show ?thesis
    proof (cases "d' = c")
      case True
      with 3(2) Cons have np: "\<not> prefix (d # cs) qs" by auto
      show ?thesis using Cons True 3(1) [OF _ _ np]
        by (auto simp: scandir_set_entries update_conv' split: option.splits)
    next
      case False
      then show ?thesis using Cons
        by (auto simp: scandir_set_entries update_conv' split: option.splits)
    qed
  qed
qed

lemma lstat_alter_append:
  "lstat n p = Some m \<Longrightarrow> r \<noteq> [] \<Longrightarrow> lstat (alter (p @ r) v n) p = Some (alter r v m)"
proof (induction p arbitrary: n)
  case Nil
  then show ?case by simp
next
  case (Cons c cs)
  from Cons.prems obtain es m1 where s: "scandir n = Some es" "map_of es c = Some m1" "lstat m1 cs = Some m"
    by (auto split: option.splits)
  obtain d ds where dr: "cs @ r = d # ds" using Cons.prems(2) by (cases "cs @ r") auto
  have "alter ((c # cs) @ r) v n = set_entries (AList.update c (alter (cs @ r) v m1) es) n"
    using s dr by simp
  then show ?case using s Cons.IH [OF s(3) Cons.prems(2)]
    by (simp add: scandir_set_entries update_conv')
qed

lemma lstat_parent:
  "lstat n (q @ [c]) = Some m \<Longrightarrow> \<exists>es. stat n q = Some (Dir es)"
  by (auto simp: lstat_append stat_def scandir_def split: option.splits node.splits)

lemma stat_Dir_scandir:
  "stat n q = Some (Dir es) \<Longrightarrow> \<exists>m. lstat n q = Some m \<and> scandir m = Some es"
  by (auto simp: stat_def scandir_def split: option.splits)

lemma lstat_alter_same:
  assumes "stat n q = Some (Dir es)"
  shows "lstat (alter (q @ [c]) v n) (q @ [c]) = v"
proof -
  from stat_Dir_scandir [OF assms] obtain m where m: "lstat n q = Some m" "scandir m = Some es"
    by blast
  have "lstat (alter (q @ [c]) v n) q = Some (alter [c] v m)"
    by (rule lstat_alter_append [OF m(1)]) simp
  then show ?thesis using m(2)
    by (cases v) (simp_all add: lstat_append [of _ q "[c]"] scandir_set_entries update_conv' delete_conv')
qed

lemma mkdir_ok:
  assumes "stat n q = Some (Dir es)" "lstat n (q @ [c]) = None"
  shows "mkdir (q @ [c]) n = (Inr (), alter (q @ [c]) (Some (Dir [])) n)"
  using assms by (simp add: mkdir_def)

lemma stat_None_ok_at: "ok_at n q \<Longrightarrow> stat n q = None \<Longrightarrow> lstat n q = None"
  by (auto simp: ok_at_def stat_def is_dir_def split: option.splits)

lemma stat_Some_ok_at: "ok_at n q \<Longrightarrow> stat n q \<noteq> None \<Longrightarrow> \<exists>es. stat n q = Some (Dir es)"
  by (auto simp: ok_at_def stat_def is_dir_def split: option.splits node.splits)

lemma creatable_butlast: "creatable n p \<Longrightarrow> creatable n (butlast p)"
  by (cases p rule: rev_cases; cases "butlast p" rule: rev_cases)
     (auto simp: creatable_def list_all_iff butlast_append)

lemma creatable_parent: "p \<noteq> [] \<Longrightarrow> creatable n p \<Longrightarrow> ok_at n (butlast p)"
  by (auto simp: creatable_def list_all_iff)

lemma makedirs_creates:
  "p \<noteq> [] \<Longrightarrow> creatable n p \<Longrightarrow> lstat n p = None \<Longrightarrow>
   \<exists>n'. makedirs p n = (Inr (), n') \<and> lstat n' p = Some (Dir [])"
proof (induction p n rule: makedirs.induct)
  case (1 p fs)
  obtain q c where p: "p = q @ [c]" using 1(2) by (cases p rule: rev_cases) auto
  have okq: "ok_at fs q" using creatable_parent [OF 1(2) 1(3)] p by simp
  show ?case
  proof (cases "q \<noteq> [] \<and> stat fs q = None")
    case True
    then have lq: "lstat fs q = None" using okq stat_None_ok_at by blast
    from 1(1) [of ] True p creatable_butlast [OF 1(3)] lq
    obtain n1 where n1: "makedirs q fs = (Inr (), n1)" "lstat n1 q = Some (Dir [])"
      by auto
    have sq: "stat n1 q = Some (Dir [])" using n1(2) by (simp add: stat_def)
    have lp: "lstat n1 (q @ [c]) = None" using n1(2) by (simp add: lstat_append scandir_def)
    have "makedirs p fs = mkdir p n1"
      using True p n1(1) by (subst makedirs.simps) simp
    then show ?thesis
      using mkdir_ok [OF sq lp] lstat_alter_same [OF sq] p by auto
  next
    case False
    then have "stat fs q \<noteq> None"
      using okq by (auto simp: ok_at_def stat_def is_dir_def split: option.splits)
    then obtain es where sq: "stat fs q = Some (Dir es)" using stat_Some_ok_at [OF okq] by blast
    have "makedirs p fs = mkdir p fs"
      using False p by (subst makedirs.simps) auto
    then show ?thesis
      using mkdir_ok [OF sq] 1(4) lstat_alter_same [OF sq] p by auto
  qed
qed

lemma split_sep_append:
  "split_sep acc (s @ CHR ''/'' # t) = split_sep acc s @ split_sep [] t"
  by (induction s arbitrary: acc) auto

lemma components_dataset: "components (path @ ''/dataset'') = components path @ [''dataset'']"
  using split_sep_append [of "[]" path "''dataset''"] by (simp add: components_def)

lemma components_model: "components (path @ ''/model'') = components path @ [''model'']"
  using split_sep_append [of "[]" path "''model''"] by (simp add: components_def)

lemma components_nonempty: "components path \<noteq> [] \<Longrightarrow> path \<noteq> []"
  by (auto simp: components_def)

lemma remove_file_dir_cleared:
  assumes "components path \<noteq> []"
  shows "remove_file_dir path fs = (Inr (stat fs (components path) \<noteq> None), cleared (components path) fs)"
proof -
  have ne: "path \<noteq> []" using assms by (rule components_nonempty)
  show ?thesis
  proof (cases "lstat fs (components path)")
    case None
    then show ?thesis
      by (simp add: remove_file_dir_def os_path_exists_def stat_def cleared_def ne)
  next
    case (Some m)
    then show ?thesis using assms ne
      by (cases m)
         (auto simp: remove_file_dir_def os_path_exists_def os_path_isfile_def os_path_islink_def
            stat_def cleared_def os_unlink_def shutil_rmtree_def split: option.splits node.splits)
  qed
qed

lemma shape_cleared:
  "\<not> prefix x q \<Longrightarrow> map_option shape (lstat (cleared x f) q) = map_option shape (lstat f q)"
  by (simp add: cleared_def alter_shape)

lemma shape_lstat_None:
  "map_option shape (lstat a q) = map_option shape (lstat b q) \<Longrightarrow>
   (lstat a q = None) = (lstat b q = None)"
  by (cases "lstat a q"; cases "lstat b q") auto

lemma follow_None_shape: "(follow (shape m) = None) = (follow m = None)"
  by (simp add: follow_shape)

lemma shape_stat_None:
  assumes "map_option shape (lstat a q) = map_option shape (lstat b q)"
  shows "(stat a q = None) = (stat b q = None)"
proof (cases "lstat a q")
  case None
  then show ?thesis using assms by (cases "lstat b q") (auto simp: stat_def)
next
  case (Some m)
  then obtain m' where m': "lstat b q = Some m'" "shape m = shape m'"
    using assms by (cases "lstat b q") auto
  have "(follow m = None) = (follow m' = None)"
    using follow_None_shape [of m] follow_None_shape [of m'] m'(2) by simp
  then show ?thesis using Some m'(1) by (simp add: stat_def)
qed

lemma shape_ok_at:
  assumes "map_option shape (lstat a q) = map_option shape (lstat b q)"
  shows "ok_at a q = ok_at b q"
proof (cases "lstat a q")
  case None
  then show ?thesis using assms by (cases "lstat b q") (auto simp: ok_at_def)
next
  case (Some m)
  then obtain m' where m': "lstat b q = Some m'" "shape m = shape m'"
    using assms by (cases "lstat b q") auto
  have "is_dir m = is_dir m'"
    using is_dir_shape [of m] is_dir_shape [of m'] m'(2) by simp
  then show ?thesis using Some m'(1) by (simp add: ok_at_def)
qed

lemma lstat_cleared_same:
  assumes "p \<noteq> []" "lstat fs p = None \<or> stat fs p \<noteq> None"
  shows "lstat (cleared p fs) p = None"
proof (cases "stat fs p = None")
  case True
  then show ?thesis using assms(2) by (simp add: cleared_def)
next
  case False
  obtain q c where p: "p = q @ [c]" using assms(1) by (cases p rule: rev_cases) auto
  from False obtain m where "lstat fs (q @ [c]) = Some m"
    unfolding p by (auto simp: stat_def split: option.splits)
  from lstat_parent [OF this] obtain es where "stat fs q = Some (Dir es)" by blast
  moreover have "cleared p fs = alter p None fs" using False by (auto simp: cleared_def)
  ultimately show ?thesis using lstat_alter_same [of fs q es c None] by (simp add: p)
qed

lemma creatable_shape:
  assumes "\<And>q. prefix q (butlast p) \<Longrightarrow> map_option shape (lstat a q) = map_option shape (lstat b q)"
  shows "creatable a p = creatable b p"
proof -
  have "ok_at a q = ok_at b q" if "prefix q (butlast p)" for q
    using shape_ok_at [OF assms [OF that]] .
  then show ?thesis by (auto simp: creatable_def list_all_iff)
qed

lemma log_dataset_dir_nonempty: "log_dataset_dir e self \<noteq> []"
  by (simp add: log_dataset_dir_def)

text \<open>
  What \<^verbatim>\<open>_initialize_log_dir\<close> achieves, for a process that may delete and create
  under the log path. If the log path is plain (it does not end in a slash and has
  neither of the names \<^verbatim>\<open>.\<close> and \<^verbatim>\<open>..\<close>), can be created, and does not hold a
  dangling symbolic link, then whatever else stands at it (nothing, a file, a link to a
  file or to a directory, a directory with any content), the call succeeds and leaves at
  the log path a directory with exactly two entries, \<^verbatim>\<open>model\<close> and \<^verbatim>\<open>dataset\<close>, both
  empty directories.
\<close>

theorem initialize_log_dir_empty:
  assumes pl: "plain (log_dir e self)"
    and ne: "components (log_dir e self) \<noteq> []"
    and nd: "lstat fs (components (log_dir e self)) = None \<or> stat fs (components (log_dir e self)) \<noteq> None"
    and cr: "creatable fs (components (log_dir e self))"
  shows "\<exists>fs'. initialize_log_dir e self fs = (Inr (), fs')
          \<and> stat fs' (components (log_dir e self)) = Some (Dir [(''model'', Dir []), (''dataset'', Dir [])])
          \<and> stat fs' (components (log_dataset_dir e self)) = Some (Dir [])
          \<and> stat fs' (components (log_model_dir e self)) = Some (Dir [])"
proof -
  define p where "p = components (log_dir e self)"
  define fs1 where "fs1 = cleared (p @ [''dataset'']) fs"
  define fs2 where "fs2 = cleared (p @ [''model'']) fs1"
  define fs3 where "fs3 = cleared p fs2"
  have pd: "components (log_dataset_dir e self) = p @ [''dataset'']"
    by (simp add: log_dataset_dir_def components_dataset p_def)
  have pm: "components (log_model_dir e self) = p @ [''model'']"
    by (simp add: log_model_dir_def components_model p_def)
  have pne: "p \<noteq> []" using ne by (simp add: p_def)
  have r1: "remove_file_dir (log_dataset_dir e self) fs = (Inr (stat fs (p @ [''dataset'']) \<noteq> None), fs1)"
    using remove_file_dir_cleared [of "log_dataset_dir e self" fs] by (simp add: pd fs1_def)
  have r2: "remove_file_dir (log_model_dir e self) fs1 = (Inr (stat fs1 (p @ [''model'']) \<noteq> None), fs2)"
    using remove_file_dir_cleared [of "log_model_dir e self" fs1] by (simp add: pm fs2_def)
  have r3: "remove_file_dir (log_dir e self) fs2 = (Inr (stat fs2 p \<noteq> None), fs3)"
    using remove_file_dir_cleared [of "log_dir e self" fs2] pne by (simp add: p_def fs3_def)
  have sh12: "map_option shape (lstat fs2 q) = map_option shape (lstat fs q)" if "prefix q p" for q
  proof -
    have "\<not> prefix (p @ [''dataset'']) q" "\<not> prefix (p @ [''model'']) q"
      using that by (auto simp: prefix_def)
    then show ?thesis by (simp add: fs2_def fs1_def shape_cleared)
  qed
  have sh3: "map_option shape (lstat fs3 q) = map_option shape (lstat fs q)" if "prefix q (butlast p)" for q
  proof -
    have "strict_prefix q p" using that pne
      by (metis append_butlast_last_id prefix_order.dual_order.strict_trans1 strict_prefixI' prefix_order.le_less)
    then have "\<not> prefix p q" "prefix q p" by (auto simp: strict_prefix_def)
    then show ?thesis using sh12 [of q] by (simp add: fs3_def shape_cleared)
  qed
  have nd2: "lstat fs2 p = None \<or> stat fs2 p \<noteq> None"
    using nd shape_lstat_None [OF sh12 [of p]] shape_stat_None [OF sh12 [of p]] by (simp add: p_def)
  have l3: "lstat fs3 p = None"
    unfolding fs3_def by (rule lstat_cleared_same [OF pne nd2])
  have cr3: "creatable fs3 p"
    using cr creatable_shape [of p fs3 fs, OF sh3] by (simp add: p_def)
  from makedirs_creates [OF pne cr3 l3] obtain fs4 where
    m4: "makedirs p fs3 = (Inr (), fs4)" and l4: "lstat fs4 p = Some (Dir [])"
    by blast
  have s4: "stat fs4 p = Some (Dir [])" using l4 by (simp add: stat_def)
  define fs5 where "fs5 = alter (p @ [''model'']) (Some (Dir [])) fs4"
  have m5: "makedirs (p @ [''model'']) fs4 = (Inr (), fs5)"
    using s4 l4 pne mkdir_ok [OF s4, of "''model''"]
    by (subst makedirs.simps) (simp add: lstat_append scandir_def fs5_def)
  have l5: "lstat fs5 p = Some (Dir [(''model'', Dir [])])"
    unfolding fs5_def using lstat_alter_append [OF l4, of "[''model'']"] by (simp add: scandir_def)
  have s5: "stat fs5 p = Some (Dir [(''model'', Dir [])])" using l5 by (simp add: stat_def)
  define fs6 where "fs6 = alter (p @ [''dataset'']) (Some (Dir [])) fs5"
  have m6: "makedirs (p @ [''dataset'']) fs5 = (Inr (), fs6)"
    using s5 l5 pne mkdir_ok [OF s5, of "''dataset''"]
    by (subst makedirs.simps) (simp add: lstat_append scandir_def fs6_def)
  have l6: "lstat fs6 p = Some (Dir [(''model'', Dir []), (''dataset'', Dir [])])"
    unfolding fs6_def using lstat_alter_append [OF l5, of "[''dataset'']"] by (simp add: scandir_def)
  have nel: "log_dir e self \<noteq> []" using ne components_nonempty by blast
  have "initialize_log_dir e self fs = (Inr (), fs6)"
    using r1 r2 r3 m4 m5 m6 nel
    by (simp add: initialize_log_dir_def seq_def os_makedirs_def pd pm p_def [symmetric]
        log_dataset_dir_nonempty log_model_dir_nonempty)
  moreover have "stat fs6 p = Some (Dir [(''model'', Dir []), (''dataset'', Dir [])])"
    using l6 by (simp add: stat_def)
  moreover have "stat fs6 (p @ [''dataset'']) = Some (Dir [])" "stat fs6 (p @ [''model'']) = Some (Dir [])"
    using l6 by (simp_all add: stat_def lstat_append scandir_def)
  ultimately show ?thesis by (simp add: pd pm p_def [symmetric])
qed

text \<open>
  The same for the constructor: with a string under \<^verbatim>\<open>logger_name\<close>, the log path as
  above and every directory readable, construction succeeds, the logger carries the name, the log path holds exactly an
  empty \<^verbatim>\<open>model\<close> and an empty \<^verbatim>\<open>dataset\<close> directory, and the run was opened after
  the directories were made.
\<close>

theorem init_resets_log_dir:
  assumes cfg: "map_of config ''logger_name'' = Some (PyStr name)"
    and pl: "plain (get_log_dir e name)"
    and ne: "components (get_log_dir e name) \<noteq> []"
    and nd: "lstat (disk w) (components (get_log_dir e name)) = None
             \<or> stat (disk w) (components (get_log_dir e name)) \<noteq> None"
    and cr: "creatable (disk w) (components (get_log_dir e name))"
    and rd: "unreadable w = []"
  shows "\<exists>self w'. init e config w = (Inr self, w')
          \<and> project_name self = name
          \<and> stat (disk w') (components (log_dir e self)) =
              Some (Dir [(''model'', Dir []), (''dataset'', Dir [])])
          \<and> stat (disk w') (components (log_dataset_dir e self)) = Some (Dir [])
          \<and> stat (disk w') (components (log_model_dir e self)) = Some (Dir [])
          \<and> calls w' = calls w @ [Init name config]"
proof -
  define self0 where "self0 = \<lparr>project_name = name, run = \<lparr>entity = [], project = []\<rparr>\<rparr>"
  have ld: "log_dir e self0 = get_log_dir e name" by (simp add: log_dir_def self0_def)
  from initialize_log_dir_empty [of e self0 "disk w"] pl ne nd cr ld
  obtain fs' where i: "initialize_log_dir e self0 (disk w) = (Inr (), fs')"
    and s: "stat fs' (components (get_log_dir e name)) =
              Some (Dir [(''model'', Dir []), (''dataset'', Dir [])])"
       "stat fs' (components (log_dataset_dir e self0)) = Some (Dir [])"
       "stat fs' (components (log_model_dir e self0)) = Some (Dir [])"
    by auto
  have "init e config w =
          (Inr \<lparr>project_name = name, run = \<lparr>entity = account e, project = name\<rparr>\<rparr>,
           w\<lparr>disk := fs', calls := calls w @ [Init name config]\<rparr>)"
    using cfg i by (simp add: init_def wandb_init_def self0_def)
  then show ?thesis using s
    by (simp add: log_dir_def log_dataset_dir_def log_model_dir_def self0_def)
qed

text \<open>An instance: a log directory that holds a model file and a subdirectory is emptied.\<close>

theorem init_resets_log_dir_witness:
  "map_of [(''logger_name'', PyStr ''test_exp'')] ''logger_name'' = Some (PyStr ''test_exp'')
   \<and> components (get_log_dir example_env ''test_exp'') = [''repo'', ''utils'', ''log'', ''test_exp'']
   \<and> plain (get_log_dir example_env ''test_exp'')
   \<and> stat (disk (world_with model_disk [])) (components (get_log_dir example_env ''test_exp'')) =
       Some (Dir [(''model'', Dir [(''model.pt'', File), (''ckpt'', Dir [])]), (''dataset'', Dir [])])
   \<and> creatable (disk (world_with model_disk [])) (components (get_log_dir example_env ''test_exp''))
   \<and> unreadable (world_with model_disk []) = []
   \<and> (\<exists>self w'. init example_env [(''logger_name'', PyStr ''test_exp'')] (world_with model_disk []) =
                   (Inr self, w')
          \<and> stat (disk w') [''repo'', ''utils'', ''log'', ''test_exp''] =
              Some (Dir [(''model'', Dir []), (''dataset'', Dir [])]))"
proof -
  have 1: "map_of [(''logger_name'', PyStr ''test_exp'')] ''logger_name'' = Some (PyStr ''test_exp'')"
    by simp
  have 2: "components (get_log_dir example_env ''test_exp'') = [''repo'', ''utils'', ''log'', ''test_exp'']"
    by code_simp
  have 3: "stat (disk (world_with model_disk [])) (components (get_log_dir example_env ''test_exp'')) =
       Some (Dir [(''model'', Dir [(''model.pt'', File), (''ckpt'', Dir [])]), (''dataset'', Dir [])])"
    by code_simp
  have 4: "creatable (disk (world_with model_disk [])) (components (get_log_dir example_env ''test_exp''))"
    by code_simp
  have pl: "plain (get_log_dir example_env ''test_exp'')"
    by code_simp
  have ne: "components (get_log_dir example_env ''test_exp'') \<noteq> []"
    by (simp add: 2)
  have nd: "lstat (disk (world_with model_disk [])) (components (get_log_dir example_env ''test_exp'')) = None
          \<or> stat (disk (world_with model_disk [])) (components (get_log_dir example_env ''test_exp'')) \<noteq> None"
    by (simp add: 3)
  have rd: "unreadable (world_with model_disk []) = []"
    by (simp add: world_with_def)
  from init_resets_log_dir [OF 1 pl ne nd 4 rd]
  obtain self w' where r: "init example_env [(''logger_name'', PyStr ''test_exp'')] (world_with model_disk []) =
                   (Inr self, w')" "project_name self = ''test_exp''"
          "stat (disk w') (components (log_dir example_env self)) =
              Some (Dir [(''model'', Dir []), (''dataset'', Dir [])])"
    by blast
  have "stat (disk w') [''repo'', ''utils'', ''log'', ''test_exp''] =
              Some (Dir [(''model'', Dir []), (''dataset'', Dir [])])"
    using r(2,3) 2 by (simp add: log_dir_def)
  then show ?thesis using 1 2 pl 3 4 rd r(1) by blast
qed

text \<open>
  Claim C2. The constructor leaves an empty \<^verbatim>\<open>dataset/\<close> and \<^verbatim>\<open>model/\<close> under the log
  path whatever stood there before. The theorems above show this, for a plain log path
  and a process with the permissions it needs, for everything that can stand at the log
  path but one: a dangling symbolic link. For such a link
  \<^verbatim>\<open>os.path.exists\<close> is false, so \<^verbatim>\<open>remove_file_dir\<close> returns \<^verbatim>\<open>False\<close> without
  reaching the branch that unlinks links, and \<^verbatim>\<open>os.makedirs\<close> then raises
  \<^verbatim>\<open>FileExistsError\<close>. The constructor fails, the link is still there, no run is opened,
  and neither directory exists. The evaluation below is for the configuration
  \<^verbatim>\<open>{"logger_name": "test_exp"}\<close> with the link at \<^verbatim>\<open>/repo/utils/log/test_exp\<close>.
\<close>

theorem init_dangling_link:
  "lstat dangling_disk (components (log_dir example_env example_logger)) = Some (Link None)
   \<and> remove_file_dir (log_dir example_env example_logger) dangling_disk = (Inr False, dangling_disk)
   \<and> init example_env [(''logger_name'', PyStr ''test_exp'')] (world_with dangling_disk []) =
       (Inl FileExistsError, world_with dangling_disk [])
   \<and> stat dangling_disk (components (log_dataset_dir example_env example_logger)) = None
   \<and> stat dangling_disk (components (log_model_dir example_env example_logger)) = None"
  by code_simp

end
